theory Spec2Isabelle
  imports Main
begin

section \<open>Python strings\<close>

text \<open>
  A Python \<^verbatim>\<open>str\<close> is modelled as a \<^typ>\<open>string\<close>, one \<^typ>\<open>char\<close> per code point
  (code points below 256). \<^verbatim>\<open>str.isspace\<close>, \<^verbatim>\<open>str.strip()\<close> and the regular
  expression class \<^verbatim>\<open>\s\<close> share one whitespace set; below 256 it is
  U+0009..U+000D, U+001C..U+0020, U+0085 and U+00A0.
\<close>

definition isspace :: "char \<Rightarrow> bool" where
  "isspace c =
     (let n = (of_char c :: nat)
      in (9 \<le> n \<and> n \<le> 13) \<or> (28 \<le> n \<and> n \<le> 32) \<or> n = 133 \<or> n = 160)"

definition strip :: "string \<Rightarrow> string" where
  "strip s = rev (dropWhile isspace (rev (dropWhile isspace s)))"

definition is_ascii_digit :: "char \<Rightarrow> bool" where
  "is_ascii_digit c = (let n = (of_char c :: nat) in 48 \<le> n \<and> n \<le> 57)"

definition digit_value :: "char \<Rightarrow> nat" where
  "digit_value c = (of_char c :: nat) - 48"

text \<open>\<^verbatim>\<open>int(s)\<close> on a non-empty run of ASCII digits.\<close>

definition int_of_digits :: "string \<Rightarrow> int" where
  "int_of_digits ds = int (foldl (\<lambda>acc c. 10 * acc + digit_value c) 0 ds)"

text \<open>\<^verbatim>\<open>str(n)\<close> of an integer.\<close>

definition digit_char :: "nat \<Rightarrow> char" where
  "digit_char d = ''0123456789'' ! d"

fun show_nat :: "nat \<Rightarrow> string" where
  "show_nat n =
     (if n < 10 then [digit_char n]
      else show_nat (n div 10) @ [digit_char (n mod 10)])"

declare show_nat.simps [simp del]

definition show_int :: "int \<Rightarrow> string" where
  "show_int i = (if i < 0 then CHR ''-'' # show_nat (nat (- i)) else show_nat (nat i))"

section \<open>Latest versioned sheet (050\_TAK\_MESA.py)\<close>

text \<open>
  \<^verbatim>\<open>regex = re.compile(re.escape(pattern) + r'(?:\s*\(([0-9]+)\))?$')\<close> and
  \<^verbatim>\<open>regex.match(s)\<close>: the match is anchored at the start of \<open>s\<close>, the pattern is
  matched literally, the optional group is tried first (greedy) and \<^verbatim>\<open>$\<close> accepts
  the end of the string or a single newline before it. The result is \<open>None\<close> when there
  is no match, \<open>Some None\<close> when the match leaves group 1 unset and \<open>Some (Some ds)\<close>
  when group 1 is the digit run \<open>ds\<close>.
\<close>

definition at_dollar :: "string \<Rightarrow> bool" where
  "at_dollar rest = (rest = [] \<or> rest = [CHR 0x0A])"

definition version_group :: "string \<Rightarrow> string option" where
  "version_group rest =
     (case dropWhile isspace rest of
        [] \<Rightarrow> None
      | c # after_paren \<Rightarrow>
          if c \<noteq> CHR ''('' then None
          else
            let ds = takeWhile is_ascii_digit after_paren;
                remaining = dropWhile is_ascii_digit after_paren
            in (case remaining of
                  [] \<Rightarrow> None
                | d # rest' \<Rightarrow>
                    if ds \<noteq> [] \<and> d = CHR '')'' \<and> at_dollar rest' then Some ds else None))"

definition regex_match :: "string \<Rightarrow> string \<Rightarrow> string option option" where
  "regex_match pattern s =
     (if take (length pattern) s \<noteq> pattern then None
      else
        let rest = drop (length pattern) s
        in (case version_group rest of
              Some ds \<Rightarrow> Some (Some ds)
            | None \<Rightarrow> if at_dollar rest then Some None else None))"

text \<open>
  The body of the \<^verbatim>\<open>for sheet in all_sheets\<close> loop: \<open>None\<close> when the sheet does not
  match, otherwise the version read from it
  (\<^verbatim>\<open>int(version_str) if version_str else 0\<close>).
\<close>

definition sheet_version :: "string \<Rightarrow> string \<Rightarrow> int option" where
  "sheet_version pattern sheet =
     (case regex_match pattern (strip sheet) of
        None \<Rightarrow> None
      | Some version_str \<Rightarrow>
          Some (case version_str of
                  None \<Rightarrow> 0
                | Some ds \<Rightarrow> if ds = [] then 0 else int_of_digits ds))"

text \<open>The loop state is \<open>(latest_sheet, latest_version)\<close>, started at \<open>(None, -1)\<close>.\<close>

fun find_latest_loop ::
  "string \<Rightarrow> string list \<Rightarrow> string option \<times> int \<Rightarrow> string option \<times> int" where
  "find_latest_loop pattern [] st = st"
| "find_latest_loop pattern (sheet # sheets) (latest_sheet, latest_version) =
     (case sheet_version pattern sheet of
        None \<Rightarrow> find_latest_loop pattern sheets (latest_sheet, latest_version)
      | Some version \<Rightarrow>
          if version \<ge> latest_version
          then find_latest_loop pattern sheets (Some sheet, version)
          else find_latest_loop pattern sheets (latest_sheet, latest_version))"

definition find_latest_sheet :: "string list \<Rightarrow> string \<Rightarrow> string option" where
  "find_latest_sheet all_sheets pattern = fst (find_latest_loop pattern all_sheets (None, -1))"

section \<open>Values, tables and the environment\<close>

text \<open>
  A point in time (\<^verbatim>\<open>datetime\<close>, \<^verbatim>\<open>pandas.Timestamp\<close>) is an integer number of
  nanoseconds; \<^verbatim>\<open>timedelta(days=n)\<close> is \<open>n * one_day\<close>.
\<close>

datatype pyexc = ValueError | TypeError | OverflowError | KeyError | OSError

definition one_day :: int where
  "one_day = 86400 * 1000000000"

text \<open>
  \<^verbatim>\<open>now - timedelta(days=n)\<close>: \<^verbatim>\<open>timedelta\<close> raises \<^verbatim>\<open>OverflowError\<close> beyond
  999999999 days, and so does the subtraction when the result leaves the range of
  \<^verbatim>\<open>datetime\<close> (year 1 to year 9999).
\<close>

definition datetime_min :: int where
  "datetime_min = - 62135596800 * 1000000000"

definition datetime_max :: int where
  "datetime_max = 253402300799 * 1000000000 + 999999000"

definition minus_days :: "int \<Rightarrow> int \<Rightarrow> pyexc + int" where
  "minus_days now n =
     (if \<bar>n\<bar> > 999999999 then Inl OverflowError
      else if now - n * one_day < datetime_min \<or> now - n * one_day > datetime_max
      then Inl OverflowError
      else Inr (now - n * one_day))"

text \<open>
  A cell of a DataFrame. \<open>NA\<close> stands for every missing value (\<^verbatim>\<open>None\<close>,
  \<^verbatim>\<open>NaN\<close>, \<^verbatim>\<open>NaT\<close>): the scripts only ever ask \<^verbatim>\<open>pd.isna\<close> of them. Numbers
  are of an arbitrary type \<open>'n\<close>.
\<close>

datatype 'n cell = NA | Str string | Num 'n | Bool bool | Time int

datatype label = Pos nat | Named string

text \<open>
  A DataFrame: the column labels and the rows, each row with its index label.
  \<^verbatim>\<open>iloc\<close> and \<^verbatim>\<open>iat\<close> address by position, \<^verbatim>\<open>loc\<close> and \<^verbatim>\<open>drop(index=...)\<close>
  by index label.
\<close>

record 'n frame =
  columns :: "label list"
  rows :: "(nat \<times> 'n cell list) list"

definition empty_df :: "'n frame \<Rightarrow> bool" where
  "empty_df df = (rows df = [] \<or> columns df = [])"

definition cell_at :: "'n cell list \<Rightarrow> nat \<Rightarrow> 'n cell" where
  "cell_at r i = (if i < length r then r ! i else NA)"

definition reset_index :: "'n frame \<Rightarrow> 'n frame" where
  "reset_index df = df\<lparr>rows := zip [0..<length (rows df)] (map snd (rows df))\<rparr>"

text \<open>
  The library functions the scripts call, taken as parameters:
  \<^item> \<open>to_datetime_coerce\<close>: \<^verbatim>\<open>pd.to_datetime(x, errors='coerce')\<close> on one value,
    \<open>None\<close> for \<^verbatim>\<open>NaT\<close>;
  \<^item> \<open>to_datetime_series\<close>: \<^verbatim>\<open>pd.to_datetime(column, errors='coerce')\<close> on a whole
    column, one call. It raises, or returns the parsed column: whether its values carry a
    time zone, and the entry at each position (\<open>None\<close> for \<^verbatim>\<open>NaT\<close>). The entry at a
    position may depend on the other cells of the column (the format is taken from the
    first value);
  \<^item> \<open>to_datetime\<close>: \<^verbatim>\<open>pd.to_datetime(x)\<close>, which may raise;
  \<^item> \<open>strftime\<close>: \<^verbatim>\<open>t.strftime(format)\<close>;
  \<^item> \<open>py_float\<close>: \<^verbatim>\<open>float(x)\<close>, \<open>py_int\<close>: \<^verbatim>\<open>int(x)\<close> of a number,
    \<open>py_truth\<close>: \<^verbatim>\<open>bool(x)\<close> of a number, \<open>py_str\<close>: \<^verbatim>\<open>str(x)\<close>;
  \<^item> \<open>dirname\<close>: \<^verbatim>\<open>os.path.dirname\<close>, \<open>path_join\<close>: \<^verbatim>\<open>os.path.join\<close>;
  \<^item> \<open>to_csv df header\<close>: the text \<^verbatim>\<open>df.to_csv(..., header=header, index=False)\<close>
    writes.
\<close>

record 'n pylib =
  to_datetime_coerce :: "'n cell \<Rightarrow> int option"
  to_datetime_series :: "'n cell list \<Rightarrow> pyexc + bool \<times> (nat \<Rightarrow> int option)"
  to_datetime :: "'n cell \<Rightarrow> pyexc + int option"
  strftime :: "string \<Rightarrow> int \<Rightarrow> string"
  py_float :: "'n cell \<Rightarrow> pyexc + 'n"
  py_int :: "'n \<Rightarrow> pyexc + 'n"
  py_truth :: "'n \<Rightarrow> bool"
  py_str :: "'n cell \<Rightarrow> string"
  dirname :: "string \<Rightarrow> string"
  path_join :: "string \<Rightarrow> string \<Rightarrow> string"
  to_csv :: "'n frame \<Rightarrow> bool \<Rightarrow> string"

text \<open>
  \<^verbatim>\<open>str.isdigit\<close> (below 256 the digits are 0-9 and the superscripts U+00B2, U+00B3,
  U+00B9) and \<^verbatim>\<open>int(s)\<close> on a string for which \<^verbatim>\<open>isdigit\<close> holds: it raises
  \<^verbatim>\<open>ValueError\<close> on a superscript digit and beyond 4300 digits.
\<close>

definition isdigit_char :: "char \<Rightarrow> bool" where
  "isdigit_char c =
     (let n = (of_char c :: nat) in is_ascii_digit c \<or> n = 178 \<or> n = 179 \<or> n = 185)"

definition isdigit :: "string \<Rightarrow> bool" where
  "isdigit s = (s \<noteq> [] \<and> list_all isdigit_char s)"

definition py_int_str :: "string \<Rightarrow> pyexc + int" where
  "py_int_str s =
     (if s \<noteq> [] \<and> list_all is_ascii_digit s \<and> length s \<le> 4300
      then Inr (int_of_digits s) else Inl ValueError)"

text \<open>
  The environment of a run: files with their content, directories, the paths on which the
  operating system refuses \<^verbatim>\<open>open\<close> and \<^verbatim>\<open>os.makedirs\<close>, the clock (the \<open>k\<close>-th
  call of \<^verbatim>\<open>datetime.now()\<close> or \<^verbatim>\<open>datetime.today()\<close> returns \<open>clock k\<close>), the
  random numbers and the log.
\<close>

datatype level = LInfo | LWarning | LError

record world =
  files :: "string \<rightharpoonup> string"
  dirs :: "string set"
  denied :: "string set"
  clock :: "nat \<Rightarrow> int"
  ticks :: nat
  rand :: "nat \<Rightarrow> nat"
  logs :: "(level \<times> string) list"

definition log_msg :: "level \<Rightarrow> string \<Rightarrow> world \<Rightarrow> world" where
  "log_msg lv msg w = w\<lparr>logs := logs w @ [(lv, msg)]\<rparr>"

definition datetime_now :: "world \<Rightarrow> int \<times> world" where
  "datetime_now w = (clock w (ticks w), w\<lparr>ticks := Suc (ticks w)\<rparr>)"

definition path_exists :: "world \<Rightarrow> string \<Rightarrow> bool" where
  "path_exists w p = (p \<in> dom (files w) \<or> p \<in> dirs w)"

text \<open>
  \<^verbatim>\<open>with open(p, 'w') as f: f.write(content)\<close>. The file can be opened for writing
  when the path is not refused, is not a directory, and its directory exists.
\<close>

definition can_write :: "'n pylib \<Rightarrow> world \<Rightarrow> string \<Rightarrow> bool" where
  "can_write lib w p =
     (\<not> (p \<in> denied w \<or> p \<in> dirs w \<or> (dirname lib p \<noteq> [] \<and> dirname lib p \<notin> dirs w)))"

definition write_file :: "'n pylib \<Rightarrow> string \<Rightarrow> string \<Rightarrow> world \<Rightarrow> pyexc + world" where
  "write_file lib p content w =
     (if \<not> can_write lib w p then Inl OSError
      else Inr (w\<lparr>files := (files w)(p \<mapsto> content)\<rparr>))"

text \<open>\<^verbatim>\<open>with open(p, 'r') as f: f.read()\<close>\<close>

definition read_file :: "string \<Rightarrow> world \<Rightarrow> pyexc + string" where
  "read_file p w =
     (case files w p of
        None \<Rightarrow> Inl OSError
      | Some content \<Rightarrow> if p \<in> denied w then Inl OSError else Inr content)"

definition makedirs :: "string \<Rightarrow> world \<Rightarrow> pyexc + world" where
  "makedirs d w =
     (if d \<in> denied w \<or> path_exists w d then Inl OSError
      else Inr (w\<lparr>dirs := insert d (dirs w)\<rparr>))"

section \<open>Cursor Store and date filter (Backup/CVD\_Grating.py)\<close>

text \<open>
  \<^verbatim>\<open>read_running_rec\<close> of CVD\_Grating.py: the threshold is always
  \<^verbatim>\<open>datetime.now() - timedelta(days=default_days_ago)\<close>; the content of the file is
  read for the log only.
\<close>

definition read_running_rec ::
  "'n pylib \<Rightarrow> string \<Rightarrow> int \<Rightarrow> world \<Rightarrow> (pyexc + int) \<times> world" where
  "read_running_rec lib running_rec_path default_days_ago w0 =
     (let (now, w1) = datetime_now w0
      in (case minus_days now default_days_ago of
            Inl e \<Rightarrow> (Inl e, w1)
          | Inr processing_start_date \<Rightarrow>
              let w2 = log_msg LInfo ''Calculating processing start threshold based on Data_date'' w1;
                  w3 = log_msg LInfo ''The content of the running_rec file will NOT be used'' w2;
                  w4 = (if path_exists w3 running_rec_path then
                          (case read_file running_rec_path w3 of
                             Inr content \<Rightarrow>
                               if strip content \<noteq> []
                               then log_msg LInfo
                                      ''For informational purposes, content of running_rec file'' w3
                               else log_msg LInfo
                                      ''For informational purposes, running_rec file is empty'' w3
                           | Inl e \<Rightarrow>
                               log_msg LError
                                 ''For informational purposes, error reading running_rec file'' w3)
                        else
                          (let w' = log_msg LInfo ''Running_rec file not found'' w3;
                               rec_dir = dirname lib running_rec_path
                           in if rec_dir \<noteq> [] \<and> \<not> path_exists w' rec_dir then
                                (case makedirs rec_dir w' of
                                   Inr w'' \<Rightarrow> w''
                                 | Inl e \<Rightarrow>
                                     log_msg LError
                                       ''Failed to ensure directory for running_rec file'' w')
                              else w'))
              in (Inr processing_start_date, w4)))"

definition update_running_rec :: "'n pylib \<Rightarrow> string \<Rightarrow> int \<Rightarrow> world \<Rightarrow> world" where
  "update_running_rec lib running_rec_path end_date w =
     (case write_file lib running_rec_path (strftime lib ''%Y-%m-%d %H:%M:%S'' end_date) w of
        Inr w' \<Rightarrow> log_msg LInfo ''Running record file updated'' w'
      | Inl e \<Rightarrow> log_msg LError ''Error updating running record file'' w)"

text \<open>\<^verbatim>\<open>series.dropna().max()\<close>, absent when no value is left.\<close>

fun list_max :: "int list \<Rightarrow> int option" where
  "list_max [] = None"
| "list_max (x # xs) = Some (fold max xs x)"

text \<open>
  The field map is the dictionary \<^verbatim>\<open>{key: (col_spec, dtype)}\<close>, kept in insertion order.
\<close>

type_synonym fields_map = "(string \<times> string \<times> string) list"

text \<open>
  \<^verbatim>\<open>_apply_date_filter\<close>. The timestamp column is parsed by one call on the whole
  column; the temporary column \<^verbatim>\<open>__parsed_date__\<close> is the list \<open>original_dates_series\<close>
  of its entries. A row is kept when its entry is a time at or after the threshold.
  Comparing a column whose values carry a time zone with the threshold, which has none,
  raises \<^verbatim>\<open>TypeError\<close>.
\<close>

definition date_column :: "'n frame \<Rightarrow> nat \<Rightarrow> 'n cell list" where
  "date_column df idx = map (\<lambda>row. cell_at (snd row) idx) (rows df)"

definition date_ok :: "int \<Rightarrow> int option \<Rightarrow> bool" where
  "date_ok processing_start_threshold entry =
     (case entry of None \<Rightarrow> False | Some t \<Rightarrow> t \<ge> processing_start_threshold)"

definition keep_rows :: "int \<Rightarrow> 'a list \<Rightarrow> int option list \<Rightarrow> 'a list" where
  "keep_rows processing_start_threshold rs entries =
     map fst (filter (\<lambda>(row, entry). date_ok processing_start_threshold entry) (zip rs entries))"

definition apply_date_filter ::
  "'n pylib \<Rightarrow> 'n frame \<Rightarrow> fields_map \<Rightarrow> string \<Rightarrow> int \<Rightarrow> world
     \<Rightarrow> (pyexc + 'n frame \<times> int option) \<times> world" where
  "apply_date_filter lib df fields_map running_rec_path date_filter_days w0 =
     (if empty_df df then (Inr (df, None), w0)
      else
        (case read_running_rec lib running_rec_path date_filter_days w0 of
           (Inl e, w1) \<Rightarrow> (Inl e, w1)
         | (Inr processing_start_threshold, w1) \<Rightarrow>
             (case map_of fields_map ''key_Start_Date_Time'' of
                None \<Rightarrow> (Inr (df, None), log_msg LError ''Date filter skipped: not configured'' w1)
              | Some (spec, dtype) \<Rightarrow>
                  if spec = [] \<or> \<not> isdigit spec
                  then (Inr (df, None), log_msg LError ''Date filter skipped: not configured'' w1)
                  else
                    (case py_int_str spec of
                       Inl e \<Rightarrow> (Inl e, w1)
                     | Inr idx \<Rightarrow>
                         if \<not> (0 \<le> idx \<and> idx < int (length (columns df)))
                         then (Inr (df, None),
                               log_msg LError ''Date filter skipped: column index out of bounds'' w1)
                         else
                           (case to_datetime_series lib (date_column df (nat idx)) of
                              Inl e \<Rightarrow> (Inl e, w1)
                            | Inr (tz_aware, parsed) \<Rightarrow>
                                let original_dates_series = map parsed [0..<length (rows df)];
                                    latest_date_in_original_file =
                                      list_max (List.map_filter id original_dates_series);
                                    initial_row_count = length (rows df)
                                in if tz_aware then (Inl TypeError, w1)
                                   else
                                     let df_filtered =
                                           df\<lparr>rows := keep_rows processing_start_threshold (rows df)
                                                        original_dates_series\<rparr>;
                                         rows_filtered_out =
                                           initial_row_count - length (rows df_filtered);
                                         w2 = (if rows_filtered_out > 0
                                               then log_msg LInfo ''Date filter: rows removed'' w1
                                               else w1);
                                         w3 = (if empty_df df_filtered then
                                                 (let w' = log_msg LInfo
                                                       ''After date filtering, no new data to process'' w2
                                                  in (case latest_date_in_original_file of
                                                        None \<Rightarrow> w'
                                                      | Some latest \<Rightarrow>
                                                          if latest > processing_start_threshold
                                                          then update_running_rec lib running_rec_path
                                                                 latest w'
                                                          else w'))
                                               else w2)
                                     in (Inr (df_filtered, latest_date_in_original_file), w3))))))"

section \<open>Enrichment, coordinates and type conversion (Backup/CVD\_Grating.py)\<close>

text \<open>
  The lookup database of module \<^verbatim>\<open>SQL\<close>: \<^verbatim>\<open>connSQL()\<close> raises, returns no
  connection, or connects; \<^verbatim>\<open>selectSQL(cursor, serial)\<close> returns the pair
  \<^verbatim>\<open>(part_number, lot_number_9)\<close>, or \<open>None\<close> when the query (or unpacking its result)
  raises.
\<close>

datatype conn_result = ConnRaises | ConnFailed | ConnOk

record 'n sqldb =
  connSQL :: conn_result
  selectSQL :: "string \<Rightarrow> ('n cell \<times> 'n cell) option"

text \<open>
  \<^verbatim>\<open>df[name] = value\<close> with a new column name: the column is appended and every row
  gets the value. The tables of this script carry the integer labels \<^verbatim>\<open>range(n)\<close>
  set by \<^verbatim>\<open>_read_excel_sheets\<close>, so the names it adds are new.
\<close>

definition add_column :: "string \<Rightarrow> 'n cell \<Rightarrow> 'n frame \<Rightarrow> 'n frame" where
  "add_column name v df =
     df\<lparr>columns := columns df @ [Named name],
        rows := map (\<lambda>(l, r). (l, r @ [v])) (rows df)\<rparr>"

text \<open>\<^verbatim>\<open>df.loc[idx, col] = v\<close> for the column at position \<open>pos\<close>.\<close>

definition set_loc :: "nat \<Rightarrow> nat \<Rightarrow> 'n cell \<Rightarrow> 'n frame \<Rightarrow> 'n frame" where
  "set_loc idx pos v df =
     df\<lparr>rows := map (\<lambda>(l, r). if l = idx then (l, r[pos := v]) else (l, r)) (rows df)\<rparr>"

text \<open>
  The loop \<^verbatim>\<open>for idx, row in df_enriched.iterrows()\<close>. The rows iterated are those
  of the table when the loop starts; the table being updated and the log are the state.
\<close>

fun enrich_loop ::
  "'n pylib \<Rightarrow> 'n sqldb \<Rightarrow> nat \<Rightarrow> nat \<Rightarrow> (nat \<times> 'n cell list) list
     \<Rightarrow> 'n frame \<times> world \<Rightarrow> 'n frame \<times> world" where
  "enrich_loop lib db serial_idx pn_pos [] st = st"
| "enrich_loop lib db serial_idx pn_pos ((idx, row) # rest) (df_enriched, w) =
     (let serial_num = cell_at row serial_idx
      in if serial_num \<noteq> NA \<and> strip (py_str lib serial_num) \<noteq> [] then
           (case selectSQL db (py_str lib serial_num) of
              Some (part_num, lot_num_9) \<Rightarrow>
                enrich_loop lib db serial_idx pn_pos rest
                  (set_loc idx (Suc pn_pos) lot_num_9 (set_loc idx pn_pos part_num df_enriched), w)
            | None \<Rightarrow>
                enrich_loop lib db serial_idx pn_pos rest
                  (df_enriched, log_msg LError ''SQL query failed for S/N'' w))
         else
           enrich_loop lib db serial_idx pn_pos rest
             (df_enriched, log_msg LError ''Skipping SQL query: S/N is empty or invalid'' w))"

text \<open>\<^verbatim>\<open>df.dropna(subset=[col])\<close> for the column at position \<open>pos\<close>.\<close>

definition dropna_at :: "nat \<Rightarrow> 'n frame \<Rightarrow> 'n frame" where
  "dropna_at pos df = df\<lparr>rows := filter (\<lambda>(l, r). cell_at r pos \<noteq> NA) (rows df)\<rparr>"

definition enrich_with_sql_data ::
  "'n pylib \<Rightarrow> 'n sqldb \<Rightarrow> 'n frame \<Rightarrow> int \<Rightarrow> world \<Rightarrow> 'n frame \<times> world" where
  "enrich_with_sql_data lib db df serial_num_col_idx_cfg w =
     (if empty_df df then (df, w)
      else
        let pn_pos = length (columns df);
            df_enriched = add_column ''lot_number_9'' NA (add_column ''part_number'' NA df)
        in if \<not> (0 \<le> serial_num_col_idx_cfg
                  \<and> serial_num_col_idx_cfg < int (length (columns df_enriched)))
           then (df_enriched,
                 log_msg LError ''SQL data enrichment skipped: column index out of bounds'' w)
           else
             (case connSQL db of
                ConnFailed \<Rightarrow>
                  (df_enriched,
                   log_msg LError ''SQL data enrichment failed: Could not connect to database'' w)
              | ConnRaises \<Rightarrow>
                  (reset_index (dropna_at pn_pos df_enriched),
                   log_msg LError ''SQL connection or general error'' w)
              | ConnOk \<Rightarrow>
                  (let (df', w') = enrich_loop lib db (nat serial_num_col_idx_cfg) pn_pos
                                     (rows df_enriched) (df_enriched, w)
                   in (reset_index (dropna_at pn_pos df'), w'))))"

text \<open>
  \<^verbatim>\<open>_merge_xy_coordinates\<close>: the values of point \<open>i\<close> are read from row \<open>i - 1\<close> of the
  coordinate sheet and broadcast to every row.
\<close>

definition xy_value :: "'n frame \<Rightarrow> nat \<Rightarrow> int \<Rightarrow> 'n cell" where
  "xy_value df_xy_coords point_row_index col_idx =
     (if point_row_index < length (rows df_xy_coords)
         \<and> 0 \<le> col_idx \<and> col_idx < int (length (columns df_xy_coords))
      then cell_at (snd (rows df_xy_coords ! point_row_index)) (nat col_idx)
      else NA)"

text \<open>The loop over the points when the coordinate sheet is missing or empty.\<close>

fun null_points :: "nat list \<Rightarrow> 'n frame \<Rightarrow> 'n frame" where
  "null_points [] df_merged = df_merged"
| "null_points (i # later) df_merged =
     null_points later
       (add_column (CHR ''Y'' # show_nat i) NA (add_column (CHR ''X'' # show_nat i) NA df_merged))"

text \<open>
  The loop over the points otherwise; it logs an error for a point without a row and
  for an X or Y column index outside the coordinate sheet.
\<close>

fun merge_points ::
  "'n frame \<Rightarrow> int \<Rightarrow> int \<Rightarrow> nat list \<Rightarrow> 'n frame \<times> world \<Rightarrow> 'n frame \<times> world" where
  "merge_points df_xy x_idx y_idx [] st = st"
| "merge_points df_xy x_idx y_idx (i # later) (df_merged, w) =
     (let point_row_index = i - 1;
          x_in = (0 \<le> x_idx \<and> x_idx < int (length (columns df_xy)));
          y_in = (0 \<le> y_idx \<and> y_idx < int (length (columns df_xy)));
          w' = (if point_row_index < length (rows df_xy) then
                  (let wx = (if x_in then w
                             else log_msg LError ''X-coordinate index out of bounds for XY data row'' w)
                   in if y_in then wx
                      else log_msg LError ''Y-coordinate index out of bounds for XY data row'' wx)
                else log_msg LError ''Not enough rows in XY data for point'' w)
      in merge_points df_xy x_idx y_idx later
           (add_column (CHR ''Y'' # show_nat i) (xy_value df_xy point_row_index y_idx)
              (add_column (CHR ''X'' # show_nat i) (xy_value df_xy point_row_index x_idx) df_merged),
            w'))"

definition merge_xy_coordinates ::
  "'n frame \<Rightarrow> 'n frame \<Rightarrow> int \<Rightarrow> int \<Rightarrow> int \<Rightarrow> world \<Rightarrow> 'n frame \<times> world" where
  "merge_xy_coordinates df df_xy_coords xy_num_points_cfg x_idx y_idx w =
     (if empty_df df then (df, w)
      else if empty_df df_xy_coords then
        (null_points [1..<nat (xy_num_points_cfg + 1)] df,
         log_msg LError ''XY coordinates data is empty or was not read'' w)
      else
        merge_points df_xy_coords x_idx y_idx [1..<nat (xy_num_points_cfg + 1)] (df, w))"

text \<open>\<^verbatim>\<open>str.lower()\<close> on code points below 256.\<close>

definition lower_char :: "char \<Rightarrow> char" where
  "lower_char c =
     (let n = (of_char c :: nat)
      in if (65 \<le> n \<and> n \<le> 90) \<or> (192 \<le> n \<and> n \<le> 222 \<and> n \<noteq> 215)
         then char_of (n + 32) else c)"

definition lower :: "string \<Rightarrow> string" where
  "lower s = map lower_char s"

text \<open>
  The body of the \<^verbatim>\<open>try\<close> block of \<^verbatim>\<open>_apply_type_conversions\<close>: the converted value,
  or the exception raised. A \<^verbatim>\<open>dtype\<close> outside the five names leaves the value as it is.
\<close>

definition convert_value :: "'n pylib \<Rightarrow> string \<Rightarrow> 'n cell \<Rightarrow> pyexc + 'n cell" where
  "convert_value lib dtype_str original_value =
     (if dtype_str = ''float'' then
        (case py_float lib original_value of Inl e \<Rightarrow> Inl e | Inr x \<Rightarrow> Inr (Num x))
      else if dtype_str = ''int'' then
        (case py_float lib original_value of
           Inl e \<Rightarrow> Inl e
         | Inr x \<Rightarrow> (case py_int lib x of Inl e \<Rightarrow> Inl e | Inr k \<Rightarrow> Inr (Num k)))
      else if dtype_str = ''datetime'' then
        (case to_datetime lib original_value of
           Inl e \<Rightarrow> Inl e
         | Inr None \<Rightarrow> Inl ValueError
         | Inr (Some t) \<Rightarrow> Inr (Str (strftime lib ''%Y/%m/%d %H:%M:%S'' t)))
      else if dtype_str = ''bool'' then
        (case original_value of
           Str s \<Rightarrow>
             if lower s = ''true'' then Inr (Bool True)
             else if lower s = ''false'' then Inr (Bool False)
             else Inl ValueError
         | Num x \<Rightarrow> Inr (Bool (py_truth lib x))
         | Bool b \<Rightarrow> Inr (Bool b)
         | _ \<Rightarrow> Inr (Bool True))
      else if dtype_str = ''str'' then Inr (Str (py_str lib original_value))
      else Inr original_value)"

text \<open>
  The inner loop \<^verbatim>\<open>for xml_key, (col_spec, dtype_str) in fields_map.items()\<close> on one
  row: the row as converted so far and whether the loop was left by \<^verbatim>\<open>break\<close> (the row
  is marked for removal), or an exception that the \<^verbatim>\<open>except\<close> clause does not catch.
\<close>

fun convert_fields ::
  "'n pylib \<Rightarrow> nat \<Rightarrow> fields_map \<Rightarrow> 'n cell list \<Rightarrow> pyexc + 'n cell list \<times> bool" where
  "convert_fields lib ncols [] r = Inr (r, False)"
| "convert_fields lib ncols ((xml_key, col_spec, dtype_str) # later) r =
     (if \<not> isdigit col_spec then convert_fields lib ncols later r
      else
        (case py_int_str col_spec of
           Inl e \<Rightarrow> Inl e
         | Inr original_col_idx \<Rightarrow>
             if \<not> (0 \<le> original_col_idx \<and> original_col_idx < int ncols)
             then convert_fields lib ncols later r
             else
               let original_value = cell_at r (nat original_col_idx)
               in if original_value = NA
                  then convert_fields lib ncols later (r[nat original_col_idx := NA])
                  else
                    (case convert_value lib dtype_str original_value of
                       Inr converted_value \<Rightarrow>
                         convert_fields lib ncols later (r[nat original_col_idx := converted_value])
                     | Inl e \<Rightarrow>
                         if e = ValueError \<or> e = TypeError then Inr (r, True) else Inl e)))"

text \<open>
  The outer loop \<^verbatim>\<open>for row_idx in range(len(df_converted))\<close>: rows are read and
  written by position (\<^verbatim>\<open>iloc\<close>, \<^verbatim>\<open>iat\<close>), and the positions of the rows to remove
  are collected in \<^verbatim>\<open>rows_to_drop_indices\<close>.
\<close>

fun convert_loop ::
  "'n pylib \<Rightarrow> nat \<Rightarrow> fields_map \<Rightarrow> nat list
     \<Rightarrow> (nat \<times> 'n cell list) list \<times> nat set \<times> world
     \<Rightarrow> (pyexc + (nat \<times> 'n cell list) list \<times> nat set) \<times> world" where
  "convert_loop lib ncols fm [] (rs, drops, w) = (Inr (rs, drops), w)"
| "convert_loop lib ncols fm (row_idx # later) (rs, drops, w) =
     (case convert_fields lib ncols fm (snd (rs ! row_idx)) of
        Inl e \<Rightarrow> (Inl e, w)
      | Inr (r', marked) \<Rightarrow>
          convert_loop lib ncols fm later
            (rs[row_idx := (fst (rs ! row_idx), r')],
             (if marked then insert row_idx drops else drops),
             (if marked then log_msg LError ''Type conversion error. Marking row for removal'' w
              else w)))"

text \<open>
  \<^verbatim>\<open>df.drop(index=labels)\<close>: removes the rows whose index label is listed, and raises
  \<^verbatim>\<open>KeyError\<close> when a listed label is not an index label of the table.
\<close>

definition drop_index :: "nat set \<Rightarrow> 'n frame \<Rightarrow> pyexc + 'n frame" where
  "drop_index labels df =
     (if labels \<subseteq> set (map fst (rows df))
      then Inr (df\<lparr>rows := filter (\<lambda>(l, r). l \<notin> labels) (rows df)\<rparr>)
      else Inl KeyError)"

definition apply_type_conversions ::
  "'n pylib \<Rightarrow> 'n frame \<Rightarrow> fields_map \<Rightarrow> world \<Rightarrow> (pyexc + 'n frame) \<times> world" where
  "apply_type_conversions lib df fields_map w =
     (if empty_df df then (Inr df, w)
      else
        (case convert_loop lib (length (columns df)) fields_map [0..<length (rows df)]
                (rows df, {}, w) of
           (Inl e, w') \<Rightarrow> (Inl e, w')
         | (Inr (rs, rows_to_drop_indices), w') \<Rightarrow>
             let df_converted = df\<lparr>rows := rs\<rparr>
             in if rows_to_drop_indices \<noteq> {} then
                  (case drop_index rows_to_drop_indices df_converted of
                     Inl e \<Rightarrow> (Inl e, w')
                   | Inr df_dropped \<Rightarrow>
                       (Inr (reset_index df_dropped),
                        log_msg LInfo ''Removed rows due to type conversion failures'' w'))
                else (Inr df_converted, w')))"

section \<open>One run over a file (Backup/CVD\_Grating.py)\<close>

text \<open>
  The arguments of \<^verbatim>\<open>process_single_excel_file\<close> that the model depends on. The name
  and the text of the XML file are functions of the CSV timestamp, the CSV path, the
  current time and the random seconds.
\<close>

record settings =
  running_rec_path_cfg :: string
  date_filter_days_cfg :: int
  fields_map_cfg :: fields_map
  rename_map_cfg :: "(int \<times> string) list"
  ini_filename_base_id :: string
  csv_path_cfg :: string
  output_path_cfg :: string
  serial_number_source_column_idx_cfg :: int
  xy_coord_x_col_idx_cfg :: int
  xy_coord_y_col_idx_cfg :: int
  xy_num_points_cfg :: int
  xml_filename :: "string \<Rightarrow> int \<Rightarrow> nat \<Rightarrow> string"
  xml_text :: "string \<Rightarrow> string \<Rightarrow> int \<Rightarrow> nat \<Rightarrow> string"

definition perform_column_renaming :: "'n frame \<Rightarrow> (int \<times> string) list \<Rightarrow> 'n frame" where
  "perform_column_renaming df rename_map =
     (if empty_df df then df
      else df\<lparr>columns :=
                map (\<lambda>c. case c of
                            Pos k \<Rightarrow> (case map_of rename_map (int k) of
                                        None \<Rightarrow> Pos k | Some name \<Rightarrow> Named name)
                          | Named s \<Rightarrow> Named s)
                  (columns df)\<rparr>)"

definition save_to_csv ::
  "'n pylib \<Rightarrow> 'n frame \<Rightarrow> string \<Rightarrow> string \<Rightarrow> world \<Rightarrow> (string \<times> string) option \<times> world" where
  "save_to_csv lib df csv_base_path ini_filename_base w0 =
     (if empty_df df then (None, log_msg LInfo ''CSV saving skipped: DataFrame is empty'' w0)
      else
        let (now, w1) = datetime_now w0;
            current_timestamp_str = strftime lib ''%Y%m%d%H%M%S'' now;
            csv_filename = ini_filename_base @ ''_'' @ current_timestamp_str @ ''.csv'';
            csv_filepath_full = path_join lib csv_base_path csv_filename;
            made = (if \<not> path_exists w1 csv_base_path
                    then (case makedirs csv_base_path w1 of
                            Inl e \<Rightarrow> Inl e
                          | Inr w' \<Rightarrow> Inr (log_msg LInfo ''Created CSV directory'' w'))
                    else Inr w1)
        in (case made of
              Inl e \<Rightarrow> (None, log_msg LError ''Error writing CSV file'' w1)
            | Inr w2 \<Rightarrow>
                (case write_file lib csv_filepath_full (to_csv lib df True) w2 of
                   Inl e \<Rightarrow> (None, log_msg LError ''Error writing CSV file'' w2)
                 | Inr w3 \<Rightarrow>
                     (Some (csv_filepath_full, current_timestamp_str),
                      log_msg LInfo ''Data written to CSV file'' w3))))"

definition generate_xml :: "'n pylib \<Rightarrow> settings \<Rightarrow> string \<Rightarrow> string \<Rightarrow> world \<Rightarrow> world" where
  "generate_xml lib cfg current_time_for_sn csv_file_path_for_xml w0 =
     (let (now, w1) = datetime_now w0;
          random_seconds = rand w1 (ticks w1) mod 60;
          xml_filepath_full =
            path_join lib (output_path_cfg cfg)
              (xml_filename cfg current_time_for_sn now random_seconds)
      in (case write_file lib xml_filepath_full
                 (xml_text cfg current_time_for_sn csv_file_path_for_xml now random_seconds) w1 of
            Inr w2 \<Rightarrow> log_msg LInfo ''XML File Created'' w2
          | Inl e \<Rightarrow> log_msg LError ''Failed to write XML file'' w1))"

text \<open>
  The statement that \<^verbatim>\<open>process_single_excel_file\<close> repeats on each path without output:
  \<^verbatim>\<open>if latest_date and latest_date > read_running_rec(...): update_running_rec(...)\<close>.
\<close>

definition advance_if_newer ::
  "'n pylib \<Rightarrow> settings \<Rightarrow> int option \<Rightarrow> world \<Rightarrow> pyexc option \<times> world" where
  "advance_if_newer lib cfg latest_date w =
     (case latest_date of
        None \<Rightarrow> (None, w)
      | Some latest \<Rightarrow>
          (case read_running_rec lib (running_rec_path_cfg cfg) (date_filter_days_cfg cfg) w of
             (Inl e, w1) \<Rightarrow> (Some e, w1)
           | (Inr threshold, w1) \<Rightarrow>
               if latest > threshold
               then (None, update_running_rec lib (running_rec_path_cfg cfg) latest w1)
               else (None, w1)))"

text \<open>
  \<^verbatim>\<open>process_single_excel_file\<close>, from the two tables \<^verbatim>\<open>_read_excel_sheets\<close> returned
  (\<open>None\<close> when the main sheet could not be read). The result is the exception that
  leaves the function, if any, and the environment after the run.
\<close>

definition process_single_excel_file ::
  "'n pylib \<Rightarrow> 'n sqldb \<Rightarrow> settings \<Rightarrow> 'n frame option \<Rightarrow> 'n frame \<Rightarrow> world
     \<Rightarrow> pyexc option \<times> world" where
  "process_single_excel_file lib db cfg df_main_opt df_xy w0 =
     (case df_main_opt of
        None \<Rightarrow> (None, log_msg LError ''Stopping processing: Main data is empty or could not be read'' w0)
      | Some df_main \<Rightarrow>
          if empty_df df_main
          then (None, log_msg LError ''Stopping processing: Main data is empty or could not be read'' w0)
          else
            (case apply_date_filter lib df_main (fields_map_cfg cfg) (running_rec_path_cfg cfg)
                    (date_filter_days_cfg cfg) w0 of
               (Inl e, w1) \<Rightarrow> (Some e, w1)
             | (Inr (df_filtered, latest_date), w1) \<Rightarrow>
                 if empty_df df_filtered
                 then advance_if_newer lib cfg latest_date
                        (log_msg LInfo ''No data left after date filtering'' w1)
                 else
                   let (df_with_sql, w2) =
                         enrich_with_sql_data lib db df_filtered
                           (serial_number_source_column_idx_cfg cfg) w1
                   in if empty_df df_with_sql
                      then advance_if_newer lib cfg latest_date
                             (log_msg LInfo ''No data left after SQL enrichment'' w2)
                      else
                        let (df_with_xy, w3) =
                              merge_xy_coordinates df_with_sql df_xy (xy_num_points_cfg cfg)
                                (xy_coord_x_col_idx_cfg cfg) (xy_coord_y_col_idx_cfg cfg) w2
                        in (case apply_type_conversions lib df_with_xy (fields_map_cfg cfg) w3 of
                              (Inl e, w4) \<Rightarrow> (Some e, w4)
                            | (Inr df_typed, w4) \<Rightarrow>
                                if empty_df df_typed
                                then advance_if_newer lib cfg latest_date
                                       (log_msg LInfo ''No data left after type conversions'' w4)
                                else
                                  let df_renamed = perform_column_renaming df_typed (rename_map_cfg cfg);
                                      (saved, w5) =
                                        save_to_csv lib df_renamed (csv_path_cfg cfg)
                                          (ini_filename_base_id cfg) w4;
                                      generated =
                                        (case saved of
                                           None \<Rightarrow> None
                                         | Some (generated_csv_path, csv_timestamp) \<Rightarrow>
                                             if generated_csv_path \<noteq> [] \<and> csv_timestamp \<noteq> []
                                             then Some (generated_csv_path, csv_timestamp)
                                             else None);
                                      (exc, w7) =
                                        (case generated of
                                           Some (generated_csv_path, csv_timestamp) \<Rightarrow>
                                             let w6 = generate_xml lib cfg csv_timestamp
                                                        generated_csv_path w5
                                             in (case latest_date of
                                                   None \<Rightarrow> (None, w6)
                                                 | Some latest \<Rightarrow>
                                                     (None, update_running_rec lib
                                                              (running_rec_path_cfg cfg) latest w6))
                                         | None \<Rightarrow>
                                             advance_if_newer lib cfg latest_date
                                               (log_msg LError
                                                  ''Skipping XML generation because CSV was not saved'' w5))
                                  in (case exc of
                                        Some e \<Rightarrow> (Some e, w7)
                                      | None \<Rightarrow>
                                          (None, log_msg LInfo ''Successfully processed Excel file'' w7)))))"

section \<open>Cursor Store reads of the other scripts\<close>

text \<open>
  \<^verbatim>\<open>read_running_rec\<close> of Backup/CVD\_Crystal\_Length\_INI contorl V1.3.py: every file
  operation is inside a \<^verbatim>\<open>try\<close>.
\<close>

definition read_running_rec_v13 ::
  "'n pylib \<Rightarrow> string \<Rightarrow> int \<Rightarrow> world \<Rightarrow> (pyexc + int) \<times> world" where
  "read_running_rec_v13 lib running_rec_path default_days_ago w0 =
     (let (today, w1) = datetime_now w0
      in (case minus_days today default_days_ago of
            Inl e \<Rightarrow> (Inl e, w1)
          | Inr fallback_date \<Rightarrow>
              if \<not> path_exists w1 running_rec_path then
                (let rec_dir = dirname lib running_rec_path;
                     made = (if rec_dir \<noteq> [] \<and> \<not> path_exists w1 rec_dir
                             then makedirs rec_dir w1 else Inr w1)
                 in (case made of
                       Inl e \<Rightarrow>
                         (Inr fallback_date,
                          log_msg LError ''Failed to create running record file'' w1)
                     | Inr w2 \<Rightarrow>
                         (case write_file lib running_rec_path [] w2 of
                            Inl e \<Rightarrow>
                              (Inr fallback_date,
                               log_msg LError ''Failed to create running record file'' w2)
                          | Inr w3 \<Rightarrow>
                              (Inr fallback_date,
                               log_msg LInfo
                                 ''Running record file not found, created empty file'' w3))))
              else
                (case read_file running_rec_path w1 of
                   Inl e \<Rightarrow>
                     (Inr fallback_date, log_msg LError ''Error reading running_rec file'' w1)
                 | Inr text \<Rightarrow>
                     let content = strip text
                     in if content \<noteq> [] then
                          (case to_datetime_coerce lib (Str content) of
                             None \<Rightarrow>
                               (Inr fallback_date,
                                log_msg LError ''Running record file content format error'' w1)
                           | Some last_run_date \<Rightarrow>
                               (Inr last_run_date, log_msg LInfo ''Read last run time'' w1))
                        else
                          (Inr fallback_date,
                           log_msg LInfo ''Running record file is empty'' w1))))"

text \<open>
  \<^verbatim>\<open>read_running_rec\<close> of 048 TAK\_SPC/048\_TAK\_SPUT.py: the look-back is fixed at 30
  days, and the \<^verbatim>\<open>open(running_rec_path, 'w')\<close> that creates the missing file is outside
  the \<^verbatim>\<open>try\<close>.
\<close>

definition thirty_days_ago :: "world \<Rightarrow> (pyexc + int) \<times> world" where
  "thirty_days_ago w = (let (today, w1) = datetime_now w in (minus_days today 30, w1))"

definition read_running_rec_sput :: "'n pylib \<Rightarrow> string \<Rightarrow> world \<Rightarrow> (pyexc + int) \<times> world" where
  "read_running_rec_sput lib running_rec_path w0 =
     (if \<not> path_exists w0 running_rec_path then
        (case write_file lib running_rec_path [] w0 of
           Inl e \<Rightarrow> (Inl e, w0)
         | Inr w1 \<Rightarrow> thirty_days_ago w1)
      else
        (case read_file running_rec_path w0 of
           Inl e \<Rightarrow> thirty_days_ago (log_msg LError ''Error reading running record file'' w0)
         | Inr text \<Rightarrow>
             let content = strip text
             in if content \<noteq> [] then
                  (case to_datetime_coerce lib (Str content) of
                     None \<Rightarrow> thirty_days_ago w0
                   | Some last_run_date \<Rightarrow> (Inr last_run_date, w0))
                else thirty_days_ago w0))"

section \<open>Date window of 050\_TAK\_MESA.py\<close>

text \<open>
  The block of \<^verbatim>\<open>process_excel_file\<close> that filters by \<^verbatim>\<open>Running_date\<close> (lines 188 to
  212). The columns of the table carry the field names; \<open>running_date\<close> is the integer
  read from the INI file. The block does nothing unless \<^verbatim>\<open>running_date > 0\<close> and the
  column \<^verbatim>\<open>key_start_date_time\<close> exists.
\<close>

definition column_position :: "label \<Rightarrow> 'n frame \<Rightarrow> nat option" where
  "column_position l df =
     (if l \<in> set (columns df) then Some (length (takeWhile (\<lambda>c. c \<noteq> l) (columns df)))
      else None)"

definition running_date_filter ::
  "'n pylib \<Rightarrow> 'n frame \<Rightarrow> int \<Rightarrow> world \<Rightarrow> (pyexc + 'n frame) \<times> world" where
  "running_date_filter lib df_processed running_date w0 =
     (case (if running_date > 0
            then column_position (Named ''key_start_date_time'') df_processed else None) of
        None \<Rightarrow> (Inr df_processed, w0)
      | Some pos \<Rightarrow>
          (case to_datetime_series lib (date_column df_processed pos) of
             Inl e \<Rightarrow> (Inl e, w0)
           | Inr (tz_aware, parsed) \<Rightarrow>
               let datetime_col_temp = map parsed [0..<length (rows df_processed)];
                   original_rows = length (rows df_processed);
                   (now, w1) = datetime_now w0
               in (case minus_days now running_date of
                     Inl e \<Rightarrow> (Inl e, w1)
                   | Inr cutoff_date \<Rightarrow>
                       if tz_aware then (Inl TypeError, w1)
                       else
                         let df_kept =
                               df_processed\<lparr>rows := keep_rows cutoff_date (rows df_processed)
                                                       datetime_col_temp\<rparr>;
                             dropped_rows = original_rows - length (rows df_kept)
                         in (Inr df_kept,
                             if dropped_rows > 0
                             then log_msg LInfo
                                    ''Dropped rows older than Running_date days or with invalid date format'' w1
                             else w1))))"

section \<open>CSV writers (052\_Facet\_THK/Facet\_Common.py, 051\_Particle/051\_Particle.py)\<close>









section \<open>Serial number generator (051\_Particle/051\_Particle.py)\<close>

text \<open>
  The truth value Python gives to a date source that is not \<^verbatim>\<open>None\<close>: a string is false
  when empty, a number when zero; a datetime, \<^verbatim>\<open>NaT\<close> and \<^verbatim>\<open>NaN\<close> are true.
\<close>

definition cell_truth :: "'n pylib \<Rightarrow> 'n cell \<Rightarrow> bool" where
  "cell_truth lib c =
     (case c of
        NA \<Rightarrow> True
      | Str s \<Rightarrow> s \<noteq> []
      | Num n \<Rightarrow> py_truth lib n
      | Bool b \<Rightarrow> b
      | Time t \<Rightarrow> True)"

text \<open>
  \<^verbatim>\<open>build_serial_from_prefix\<close>. The arguments \<open>prefix\<close> and \<open>date_source\<close> are
  \<open>None\<close> for Python's \<^verbatim>\<open>None\<close>. \<^verbatim>\<open>NaT.strftime\<close> raises \<^verbatim>\<open>ValueError\<close>, which is
  caught like the \<^verbatim>\<open>ValueError\<close> and \<^verbatim>\<open>TypeError\<close> of \<^verbatim>\<open>pd.to_datetime\<close>; any other
  exception escapes.
\<close>

definition build_serial_from_prefix ::
  "'n pylib \<Rightarrow> string option \<Rightarrow> 'n cell option \<Rightarrow> world \<Rightarrow> (pyexc + string) \<times> world" where
  "build_serial_from_prefix lib prefix date_source w0 =
     (let attempt =
            (case date_source of
               None \<Rightarrow> Inr []
             | Some src \<Rightarrow>
                 if cell_truth lib src then
                   (case to_datetime lib src of
                      Inl e \<Rightarrow> if e = ValueError \<or> e = TypeError then Inr [] else Inl e
                    | Inr None \<Rightarrow> Inr []
                    | Inr (Some t) \<Rightarrow> Inr (strftime lib ''%y%m%d'' t))
                 else Inr [])
      in (case attempt of
            Inl e \<Rightarrow> (Inl e, w0)
          | Inr found \<Rightarrow>
              let (yymmdd, w1) =
                    (if found = []
                     then (let (today, w') = datetime_now w0
                           in (strftime lib ''%y%m%d'' today, w'))
                     else (found, w0));
                  prefix' = strip (case prefix of None \<Rightarrow> [] | Some p \<Rightarrow> p)
              in (Inr (if prefix' \<noteq> [] then prefix' @ yymmdd else yymmdd), w1)))"

section \<open>An instance of the library parameters\<close>

text \<open>
  A small instance over integer numbers, used to run the definitions on concrete
  tables: only \<open>Time\<close> cells are datetimes, times print as decimal numbers, and
  \<^verbatim>\<open>os.path.dirname\<close> is the POSIX one.
\<close>

definition posix_dirname :: "string \<Rightarrow> string" where
  "posix_dirname p =
     (let head = rev (dropWhile (\<lambda>c. c \<noteq> CHR ''/'') (rev p))
      in if head \<noteq> [] \<and> \<not> list_all (\<lambda>c. c = CHR ''/'') head
         then rev (dropWhile (\<lambda>c. c = CHR ''/'') (rev head)) else head)"

definition posix_join :: "string \<Rightarrow> string \<Rightarrow> string" where
  "posix_join a b =
     (if b \<noteq> [] \<and> hd b = CHR ''/'' then b
      else if a = [] \<or> last a = CHR ''/'' then a @ b
      else a @ ''/'' @ b)"

definition demo_cell_text :: "int cell \<Rightarrow> string" where
  "demo_cell_text c =
     (case c of
        NA \<Rightarrow> []
      | Str s \<Rightarrow> s
      | Num n \<Rightarrow> show_int n
      | Bool b \<Rightarrow> (if b then ''True'' else ''False'')
      | Time t \<Rightarrow> show_int t)"

definition demo_label_text :: "label \<Rightarrow> string" where
  "demo_label_text l = (case l of Pos k \<Rightarrow> show_nat k | Named s \<Rightarrow> s)"

definition demo_line :: "string list \<Rightarrow> string" where
  "demo_line xs = concat (map (\<lambda>x. x @ '','') xs) @ [CHR 0x0A]"

definition demo_to_csv :: "int frame \<Rightarrow> bool \<Rightarrow> string" where
  "demo_to_csv df header =
     (if header then demo_line (map demo_label_text (columns df)) else [])
     @ concat (map (\<lambda>row. demo_line (map demo_cell_text (snd row))) (rows df))"

definition demo_lib :: "int pylib" where
  "demo_lib =
     \<lparr> to_datetime_coerce = (\<lambda>c. case c of Time t \<Rightarrow> Some t | _ \<Rightarrow> None),
       to_datetime_series =
         (\<lambda>col. Inr (False, \<lambda>i. case cell_at col i of Time t \<Rightarrow> Some t | _ \<Rightarrow> None)),
       to_datetime = (\<lambda>c. case c of Time t \<Rightarrow> Inr (Some t) | NA \<Rightarrow> Inr None
                                     | _ \<Rightarrow> Inl ValueError),
       strftime = (\<lambda>fmt. show_int),
       py_float = (\<lambda>c. case c of
                          Num n \<Rightarrow> Inr n
                        | Bool b \<Rightarrow> Inr (if b then 1 else 0)
                        | Str s \<Rightarrow> py_int_str s
                        | _ \<Rightarrow> Inl TypeError),
       py_int = Inr,
       py_truth = (\<lambda>n. n \<noteq> 0),
       py_str = (\<lambda>c. case c of
                        Str s \<Rightarrow> s
                      | Num n \<Rightarrow> show_int n
                      | Bool b \<Rightarrow> (if b then ''True'' else ''False'')
                      | Time t \<Rightarrow> show_int t
                      | NA \<Rightarrow> ''nan''),
       dirname = posix_dirname,
       path_join = posix_join,
       to_csv = demo_to_csv \<rparr>"

definition demo_world :: world where
  "demo_world =
     \<lparr> files = Map.empty, dirs = {''rec''}, denied = {},
       clock = (\<lambda>k. 100 * one_day + int k), ticks = 0, rand = (\<lambda>k. 7),
       logs = [] \<rparr>"

definition demo_df :: "int frame" where
  "demo_df = \<lparr> columns = [Pos 0, Pos 1, Pos 2],
               rows = [(0, [Str ''A'', Time (99 * one_day), Str ''35'']),
                       (1, [Str ''B'', Time (60 * one_day), Str ''11'']),
                       (3, [Str ''C'', Str ''n/a'', Str ''7''])] \<rparr>"

definition demo_fields :: fields_map where
  "demo_fields =
     [(''key_Serial'', ''0'', ''str''), (''key_Start_Date_Time'', ''1'', ''datetime''),
      (''key_val'', ''2'', ''float'')]"

text \<open>
  What the enrichment loop obtains for one row: the pair returned by the lookup, or
  nothing when the serial number is missing or blank or the query raises.
\<close>

definition sql_lookup ::
  "'n pylib \<Rightarrow> 'n sqldb \<Rightarrow> nat \<Rightarrow> 'n cell list \<Rightarrow> ('n cell \<times> 'n cell) option" where
  "sql_lookup lib db serial_idx row =
     (let serial_num = cell_at row serial_idx
      in if serial_num \<noteq> NA \<and> strip (py_str lib serial_num) \<noteq> []
         then selectSQL db (py_str lib serial_num) else None)"

definition well_formed :: "'n frame \<Rightarrow> bool" where
  "well_formed df =
     (list_all (\<lambda>row. length (snd row) = length (columns df)) (rows df)
      \<and> distinct (map fst (rows df)))"

definition demo_db :: "int sqldb" where
  "demo_db =
     \<lparr> connSQL = ConnOk,
       selectSQL = (\<lambda>s. if s = ''A'' then Some (Str ''PN123'', Str ''LOT9'')
                         else if s = ''B'' then Some (Str ''PN5'', NA)
                         else if s = ''C'' then Some (NA, Str ''LOT7'')
                         else if s = ''D'' then None
                         else Some (NA, NA)) \<rparr>"

definition demo_serials :: "int frame" where
  "demo_serials =
     \<lparr> columns = [Pos 0],
       rows = [(0, [Str ''A'']), (2, [Str ''B'']), (3, [Str ''C'']), (5, [Str ''D'']),
               (6, [Str ''S1'']), (7, [NA])] \<rparr>"

text \<open>
  The state of a row after the enrichment loop has gone through the rows \<open>todo\<close>: the
  two attribute cells at positions \<open>p\<close> and \<open>p + 1\<close> are set when the lookup for the row
  carrying the same index label returned a pair.
\<close>

definition enrich_upd ::
  "'n pylib \<Rightarrow> 'n sqldb \<Rightarrow> nat \<Rightarrow> nat \<Rightarrow> (nat \<times> 'n cell list) list \<Rightarrow> nat \<times> 'n cell list
     \<Rightarrow> nat \<times> 'n cell list" where
  "enrich_upd lib db i p todo = (\<lambda>(l, r).
     (case map_of todo l of
        None \<Rightarrow> (l, r)
      | Some r0 \<Rightarrow> (case sql_lookup lib db i r0 of
                     None \<Rightarrow> (l, r)
                   | Some (pn, lot) \<Rightarrow> (l, r[p := pn, Suc p := lot]))))"

text \<open>
  The enriched cells of a row, when the row is retained: the lookup returned a pair
  whose part number is not null.
\<close>

definition enriched_row ::
  "'n pylib \<Rightarrow> 'n sqldb \<Rightarrow> nat \<Rightarrow> nat \<times> 'n cell list \<Rightarrow> 'n cell list option" where
  "enriched_row lib db serial_idx row =
     (case sql_lookup lib db serial_idx (snd row @ [NA, NA]) of
        None \<Rightarrow> None
      | Some (part_num, lot_num_9) \<Rightarrow>
          if part_num = NA then None else Some (snd row @ [part_num, lot_num_9]))"

text \<open>
  The outcome of the inner conversion loop on one row of a table: the converted row,
  whether the row was marked for removal, and whether an exception escaped.
\<close>

definition conv_row ::
  "'n pylib \<Rightarrow> nat \<Rightarrow> fields_map \<Rightarrow> nat \<times> 'n cell list \<Rightarrow> nat \<times> 'n cell list" where
  "conv_row lib ncols fm row =
     (case convert_fields lib ncols fm (snd row) of
        Inr (r, marked) \<Rightarrow> (fst row, r) | Inl e \<Rightarrow> row)"

definition row_marked :: "'n pylib \<Rightarrow> nat \<Rightarrow> fields_map \<Rightarrow> nat \<times> 'n cell list \<Rightarrow> bool" where
  "row_marked lib ncols fm row =
     (case convert_fields lib ncols fm (snd row) of
        Inr (r, marked) \<Rightarrow> marked | Inl e \<Rightarrow> False)"

definition row_raises :: "'n pylib \<Rightarrow> nat \<Rightarrow> fields_map \<Rightarrow> nat \<times> 'n cell list \<Rightarrow> bool" where
  "row_raises lib ncols fm row =
     (case convert_fields lib ncols fm (snd row) of Inr x \<Rightarrow> False | Inl e \<Rightarrow> True)"

definition demo_cfg :: settings where
  "demo_cfg =
     \<lparr> running_rec_path_cfg = ''rec/run.txt'', date_filter_days_cfg = 30,
       fields_map_cfg = demo_fields, rename_map_cfg = [(0, ''Serial'')],
       ini_filename_base_id = ''grating'', csv_path_cfg = ''csv'', output_path_cfg = ''xml'',
       serial_number_source_column_idx_cfg = 0,
       xy_coord_x_col_idx_cfg = 1, xy_coord_y_col_idx_cfg = 2, xy_num_points_cfg = 1,
       xml_filename = (\<lambda>sn now r. ''Serialnumber='' @ sn @ ''.xml''),
       xml_text = (\<lambda>sn csv now r. csv) \<rparr>"

definition demo_main :: "int frame" where
  "demo_main =
     \<lparr> columns = [Pos 0, Pos 1, Pos 2],
       rows = [(0, [Str ''A'', Time (60 * one_day), Str ''5'']),
               (1, [Str ''B'', Time (98 * one_day), Str ''10'']),
               (2, [Str ''C'', Time (99 * one_day), Str ''N/A''])] \<rparr>"

definition no_xy :: "int frame" where
  "no_xy = \<lparr> columns = [], rows = [] \<rparr>"

text \<open>
  The timestamps of a parsed column of \<open>n\<close> entries, over all its rows
  (\<^verbatim>\<open>original_dates_series.dropna()\<close>).
\<close>

definition parsed_dates :: "(nat \<Rightarrow> int option) \<Rightarrow> nat \<Rightarrow> int list" where
  "parsed_dates parsed n = List.map_filter id (map parsed [0..<n])"

text \<open>Two environments that differ in the log only.\<close>

definition only_logged :: "world \<Rightarrow> world \<Rightarrow> bool" where
  "only_logged w w' =
     (files w' = files w \<and> dirs w' = dirs w \<and> denied w' = denied w
      \<and> clock w' = clock w \<and> ticks w' = ticks w \<and> rand w' = rand w)"

text \<open>The second component \<^verbatim>\<open>latest_date\<close> of what the date filter returns in a run.\<close>

definition latest_date_of :: "'n pylib \<Rightarrow> settings \<Rightarrow> 'n frame \<Rightarrow> world \<Rightarrow> int option" where
  "latest_date_of lib cfg df w =
     (case fst (apply_date_filter lib df (fields_map_cfg cfg) (running_rec_path_cfg cfg)
                  (date_filter_days_cfg cfg) w) of
        Inl e \<Rightarrow> None
      | Inr (df_filtered, latest_date) \<Rightarrow> latest_date)"

text \<open>The clock of \<open>w'\<close> is that of \<open>w\<close>, read at least as often.\<close>

definition later :: "world \<Rightarrow> world \<Rightarrow> bool" where
  "later w w' = (clock w' = clock w \<and> ticks w \<le> ticks w')"

text \<open>
  What a run may have done to the cursor file \<open>p\<close> between the environments \<open>w0\<close> and
  \<open>w\<close>: nothing, or written the text of \<open>latest\<close>, which is then at or after \<open>thr\<close>.
\<close>

definition cursor_inv ::
  "'n pylib \<Rightarrow> string \<Rightarrow> int option \<Rightarrow> int \<Rightarrow> world \<Rightarrow> world \<Rightarrow> bool" where
  "cursor_inv lib p latest thr w0 w =
     (later w0 w
      \<and> (files w p = files w0 p
          \<or> (\<exists>l. latest = Some l \<and> thr \<le> l
                \<and> files w p = Some (strftime lib ''%Y-%m-%d %H:%M:%S'' l))))"

definition clock_mono :: "world \<Rightarrow> bool" where
  "clock_mono w = (\<forall>i j. i \<le> j \<longrightarrow> clock w i \<le> clock w j)"

text \<open>
  A second instance, in which the column call takes the format from the first value, as
  pandas 2 does: it knows the formats \<^verbatim>\<open>YYYY-MM-DD HH:MM:SS\<close> and \<^verbatim>\<open>MM/DD/YYYY\<close>, parses
  a single value with whichever of the two fits, and parses a column with the one format
  that fits its first text cell.
\<close>

definition days_from_civil :: "int \<Rightarrow> int \<Rightarrow> int \<Rightarrow> int" where
  "days_from_civil y m d =
     (let y' = (if m \<le> 2 then y - 1 else y);
          era = y' div 400;
          yoe = y' - era * 400;
          doy = (153 * (if m > 2 then m - 3 else m + 9) + 2) div 5 + d - 1;
          doe = yoe * 365 + yoe div 4 - yoe div 100 + doy
      in era * 146097 + doe - 719468)"

definition digits_value :: "string \<Rightarrow> int option" where
  "digits_value s = (if s \<noteq> [] \<and> list_all is_ascii_digit s then Some (int_of_digits s) else None)"

definition civil_time :: "int option \<Rightarrow> int option \<Rightarrow> int option \<Rightarrow> int \<Rightarrow> int option" where
  "civil_time y m d seconds =
     (case (y, m, d) of
        (Some y', Some m', Some d') \<Rightarrow>
          if 1 \<le> m' \<and> m' \<le> 12 \<and> 1 \<le> d' \<and> d' \<le> 31
          then Some (days_from_civil y' m' d' * one_day + seconds * 1000000000)
          else None
      | _ \<Rightarrow> None)"

definition parse_iso :: "string \<Rightarrow> int option" where
  "parse_iso s =
     (if length s = 19 \<and> s ! 4 = CHR ''-'' \<and> s ! 7 = CHR ''-'' \<and> s ! 10 = CHR '' ''
         \<and> s ! 13 = CHR '':'' \<and> s ! 16 = CHR '':''
      then (case (digits_value (take 2 (drop 11 s)), digits_value (take 2 (drop 14 s)),
                  digits_value (take 2 (drop 17 s))) of
              (Some hh, Some mi, Some ss) \<Rightarrow>
                civil_time (digits_value (take 4 s)) (digits_value (take 2 (drop 5 s)))
                  (digits_value (take 2 (drop 8 s))) (hh * 3600 + mi * 60 + ss)
            | _ \<Rightarrow> None)
      else None)"

definition parse_us :: "string \<Rightarrow> int option" where
  "parse_us s =
     (if length s = 10 \<and> s ! 2 = CHR ''/'' \<and> s ! 5 = CHR ''/''
      then civil_time (digits_value (drop 6 s)) (digits_value (take 2 s))
             (digits_value (take 2 (drop 3 s))) 0
      else None)"

definition parse_any :: "string \<Rightarrow> int option" where
  "parse_any s = (case parse_iso s of Some t \<Rightarrow> Some t | None \<Rightarrow> parse_us s)"

datatype date_format = IsoFormat | UsFormat | NoFormat

fun first_text :: "'n cell list \<Rightarrow> string option" where
  "first_text [] = None"
| "first_text (Str s # cs) = Some s"
| "first_text (c # cs) = first_text cs"

definition guess_format :: "'n cell list \<Rightarrow> date_format" where
  "guess_format col =
     (case first_text col of
        None \<Rightarrow> NoFormat
      | Some s \<Rightarrow>
          if parse_iso s \<noteq> None then IsoFormat
          else if parse_us s \<noteq> None then UsFormat else NoFormat)"

definition infer_entry :: "date_format \<Rightarrow> int cell \<Rightarrow> int option" where
  "infer_entry fmt c =
     (case c of
        Time t \<Rightarrow> Some t
      | Str s \<Rightarrow> (case fmt of IsoFormat \<Rightarrow> parse_iso s | UsFormat \<Rightarrow> parse_us s
                   | NoFormat \<Rightarrow> parse_any s)
      | _ \<Rightarrow> None)"

definition infer_lib :: "int pylib" where
  "infer_lib =
     demo_lib
     \<lparr> to_datetime_coerce := (\<lambda>c. case c of Time t \<Rightarrow> Some t | Str s \<Rightarrow> parse_any s | _ \<Rightarrow> None),
       to_datetime_series := (\<lambda>col. Inr (False, \<lambda>i. infer_entry (guess_format col) (cell_at col i))) \<rparr>"

definition mixed_df :: "int frame" where
  "mixed_df =
     \<lparr> columns = [Pos 0, Pos 1],
       rows = [(0, [Str ''A'', Str ''1970-04-10 00:00:00'']),
               (1, [Str ''B'', Str ''04/10/1970''])] \<rparr>"

definition mesa_df :: "int frame" where
  "mesa_df =
     \<lparr> columns = [Named ''key_part_number'', Named ''key_start_date_time''],
       rows = [(0, [Str ''P1'', Time (60 * one_day)]),
               (1, [Str ''P2'', Time (99 * one_day)]),
               (2, [Str ''P3'', Str ''n/a''])] \<rparr>"


text \<open>A text of six decimal digits.\<close>

definition six_digits :: "string \<Rightarrow> bool" where
  "six_digits s = (length s = 6 \<and> list_all is_ascii_digit s)"

text \<open>
  The date a date source stands for: the time \<^verbatim>\<open>pd.to_datetime\<close> returns for it, if
  it returns one.
\<close>

definition source_date :: "'n pylib \<Rightarrow> 'n cell option \<Rightarrow> int option" where
  "source_date lib date_source =
     (case date_source of
        None \<Rightarrow> None
      | Some src \<Rightarrow> (case to_datetime lib src of Inr (Some t) \<Rightarrow> Some t | _ \<Rightarrow> None))"

text \<open>
  A third instance, with the calendar: \<^verbatim>\<open>pd.to_datetime\<close> reads the two formats of the
  second instance, the empty string is \<^verbatim>\<open>NaT\<close>, and \<^verbatim>\<open>strftime('%y%m%d')\<close> prints
  the civil date of a time.
\<close>

definition civil_from_days :: "int \<Rightarrow> int \<times> int \<times> int" where
  "civil_from_days z =
     (let z' = z + 719468;
          era = z' div 146097;
          doe = z' - era * 146097;
          yoe = (doe - doe div 1460 + doe div 36524 - doe div 146096) div 365;
          doy = doe - (365 * yoe + yoe div 4 - yoe div 100);
          mp = (5 * doy + 2) div 153;
          d = doy - (153 * mp + 2) div 5 + 1;
          m = (if mp < 10 then mp + 3 else mp - 9);
          y = yoe + era * 400
      in (if m \<le> 2 then y + 1 else y, m, d))"

definition two_digits :: "int \<Rightarrow> string" where
  "two_digits n = [digit_char (nat (n div 10 mod 10)), digit_char (nat (n mod 10))]"

definition yymmdd_text :: "int \<Rightarrow> string" where
  "yymmdd_text t =
     (case civil_from_days (t div one_day) of
        (y, m, d) \<Rightarrow> two_digits (y mod 100) @ two_digits m @ two_digits d)"

definition civil_lib :: "int pylib" where
  "civil_lib =
     infer_lib
     \<lparr> to_datetime :=
         (\<lambda>c. case c of
                 Time t \<Rightarrow> Inr (Some t)
               | NA \<Rightarrow> Inr None
               | Str s \<Rightarrow> (if s = [] then Inr None
                            else (case parse_any s of
                                    Some t \<Rightarrow> Inr (Some t) | None \<Rightarrow> Inl ValueError))
               | _ \<Rightarrow> Inl TypeError),
       strftime := (\<lambda>fmt t. if fmt = ''%y%m%d'' then yymmdd_text t else show_int t) \<rparr>"

section \<open>Properties of the latest versioned sheet\<close>

lemma int_of_digits_nonneg: "0 \<le> int_of_digits ds"
  by (simp add: int_of_digits_def)

lemma sheet_version_nonneg: "sheet_version pattern sheet = Some v \<Longrightarrow> 0 \<le> v"
  by (auto simp: sheet_version_def int_of_digits_nonneg split: option.splits if_splits)


lemma find_latest_loop_none:
  "\<forall>s\<in>set sheets. \<forall>v. sheet_version pattern s = Some v \<longrightarrow> v < lv \<Longrightarrow>
   find_latest_loop pattern sheets (ls, lv) = (ls, lv)"
  by (induction sheets arbitrary: ls lv) (auto split: option.splits)

lemma find_latest_loop_some:
  "\<exists>s\<in>set sheets. \<exists>v. sheet_version pattern s = Some v \<and> lv \<le> v \<Longrightarrow>
   \<exists>pre s post v. sheets = pre @ s # post
     \<and> find_latest_loop pattern sheets (ls, lv) = (Some s, v)
     \<and> sheet_version pattern s = Some v \<and> lv \<le> v
     \<and> (\<forall>t\<in>set pre. \<forall>w. sheet_version pattern t = Some w \<longrightarrow> w \<le> v)
     \<and> (\<forall>t\<in>set post. \<forall>w. sheet_version pattern t = Some w \<longrightarrow> w < v)"
proof (induction sheets arbitrary: ls lv)
  case Nil
  then show ?case by simp
next
  case (Cons a sheets)
  show ?case
  proof (cases "sheet_version pattern a")
    case None
    with Cons.prems have ex: "\<exists>s\<in>set sheets. \<exists>v. sheet_version pattern s = Some v \<and> lv \<le> v"
      by auto
    from Cons.IH[OF ex, of ls] obtain pre s post v where
      h: "sheets = pre @ s # post" "find_latest_loop pattern sheets (ls, lv) = (Some s, v)"
         "sheet_version pattern s = Some v" "lv \<le> v"
         "\<forall>t\<in>set pre. \<forall>w. sheet_version pattern t = Some w \<longrightarrow> w \<le> v"
         "\<forall>t\<in>set post. \<forall>w. sheet_version pattern t = Some w \<longrightarrow> w < v"
      by blast
    show ?thesis
      apply (rule exI[of _ "a # pre"], rule exI[of _ s], rule exI[of _ post], rule exI[of _ v])
      using h None by auto
  next
    case (Some va)
    show ?thesis
    proof (cases "lv \<le> va")
      case True
      note upd = True
      show ?thesis
      proof (cases "\<exists>s\<in>set sheets. \<exists>v. sheet_version pattern s = Some v \<and> va \<le> v")
        case True
        from Cons.IH[OF True, of "Some a"] obtain pre s post v where
          h: "sheets = pre @ s # post" "find_latest_loop pattern sheets (Some a, va) = (Some s, v)"
             "sheet_version pattern s = Some v" "va \<le> v"
             "\<forall>t\<in>set pre. \<forall>w. sheet_version pattern t = Some w \<longrightarrow> w \<le> v"
             "\<forall>t\<in>set post. \<forall>w. sheet_version pattern t = Some w \<longrightarrow> w < v"
          by blast
        show ?thesis
          apply (rule exI[of _ "a # pre"], rule exI[of _ s], rule exI[of _ post], rule exI[of _ v])
          using h Some upd by auto
      next
        case False
        then have lt: "\<forall>s\<in>set sheets. \<forall>v. sheet_version pattern s = Some v \<longrightarrow> v < va"
          by auto
        have "find_latest_loop pattern sheets (Some a, va) = (Some a, va)"
          by (rule find_latest_loop_none[OF lt])
        then show ?thesis
          apply -
          apply (rule exI[of _ "[]"], rule exI[of _ a], rule exI[of _ sheets], rule exI[of _ va])
          using Some upd lt by auto
      qed
    next
      case False
      with Cons.prems Some have ex: "\<exists>s\<in>set sheets. \<exists>v. sheet_version pattern s = Some v \<and> lv \<le> v"
        by auto
      from Cons.IH[OF ex, of ls] obtain pre s post v where
        h: "sheets = pre @ s # post" "find_latest_loop pattern sheets (ls, lv) = (Some s, v)"
           "sheet_version pattern s = Some v" "lv \<le> v"
           "\<forall>t\<in>set pre. \<forall>w. sheet_version pattern t = Some w \<longrightarrow> w \<le> v"
           "\<forall>t\<in>set post. \<forall>w. sheet_version pattern t = Some w \<longrightarrow> w < v"
        by blast
      show ?thesis
        apply (rule exI[of _ "a # pre"], rule exI[of _ s], rule exI[of _ post], rule exI[of _ v])
        using h Some False by auto
    qed
  qed
qed

text \<open>
  C6 (as amended). \<^const>\<open>find_latest_sheet\<close> returns nothing exactly when no sheet name
  matches the pattern. Otherwise it returns a sheet of the list that matches, whose version
  is the highest among the matching sheets, and which is the \<^emph>\<open>last\<close> sheet of the list
  carrying that version: every matching sheet before it has a version at most as high,
  every matching sheet after it a strictly lower one. A sheet whose stripped name is the
  pattern itself (no parenthesised suffix) has version 0.
\<close>

theorem find_latest_sheet_last_highest:
  "(find_latest_sheet all_sheets pattern = None
      \<longleftrightarrow> (\<forall>s\<in>set all_sheets. sheet_version pattern s = None))
   \<and> (\<forall>r. find_latest_sheet all_sheets pattern = Some r \<longrightarrow>
        (\<exists>pre post v. all_sheets = pre @ r # post
           \<and> sheet_version pattern r = Some v
           \<and> (\<forall>t\<in>set pre. \<forall>w. sheet_version pattern t = Some w \<longrightarrow> w \<le> v)
           \<and> (\<forall>t\<in>set post. \<forall>w. sheet_version pattern t = Some w \<longrightarrow> w < v)))
   \<and> (strip s = pattern \<longrightarrow> sheet_version pattern s = Some 0)"
proof (cases "\<forall>s\<in>set all_sheets. sheet_version pattern s = None")
  case True
  then have "find_latest_loop pattern all_sheets (None, -1) = (None, -1)"
    by (intro find_latest_loop_none) auto
  then have "find_latest_sheet all_sheets pattern = None"
    by (simp add: find_latest_sheet_def)
  moreover have "strip s = pattern \<longrightarrow> sheet_version pattern s = Some 0"
    by (auto simp: sheet_version_def regex_match_def version_group_def at_dollar_def)
  ultimately show ?thesis using True by simp
next
  case False
  then obtain s0 v0 where "s0 \<in> set all_sheets" "sheet_version pattern s0 = Some v0"
    by auto
  moreover from this have "-1 \<le> v0" using sheet_version_nonneg[of pattern s0 v0] by simp
  ultimately have "\<exists>s\<in>set all_sheets. \<exists>v. sheet_version pattern s = Some v \<and> -1 \<le> v"
    by blast
  from find_latest_loop_some[OF this, of None] obtain pre r post v where
    h: "all_sheets = pre @ r # post" "find_latest_loop pattern all_sheets (None, -1) = (Some r, v)"
       "sheet_version pattern r = Some v"
       "\<forall>t\<in>set pre. \<forall>w. sheet_version pattern t = Some w \<longrightarrow> w \<le> v"
       "\<forall>t\<in>set post. \<forall>w. sheet_version pattern t = Some w \<longrightarrow> w < v"
    by blast
  have r: "find_latest_sheet all_sheets pattern = Some r"
    using h(2) by (simp add: find_latest_sheet_def)
  have z: "strip s = pattern \<longrightarrow> sheet_version pattern s = Some 0"
    by (auto simp: sheet_version_def regex_match_def version_group_def at_dollar_def)
  have ex: "\<exists>pre post v. all_sheets = pre @ r # post
           \<and> sheet_version pattern r = Some v
           \<and> (\<forall>t\<in>set pre. \<forall>w. sheet_version pattern t = Some w \<longrightarrow> w \<le> v)
           \<and> (\<forall>t\<in>set post. \<forall>w. sheet_version pattern t = Some w \<longrightarrow> w < v)"
    using h(1,3,4,5) by blast
  show ?thesis using False r ex z by simp
qed

text \<open>The amended statement at a list with a tie, a lower version and an unversioned sheet.\<close>

theorem find_latest_sheet_last_highest_witness:
  "find_latest_sheet [''Data (3)'', ''Data'', ''Data(3)'', ''Data (2)''] ''Data'' = Some ''Data(3)''
   \<and> (\<exists>pre post v. [''Data (3)'', ''Data'', ''Data(3)'', ''Data (2)''] = pre @ ''Data(3)'' # post
           \<and> sheet_version ''Data'' ''Data(3)'' = Some v
           \<and> (\<forall>t\<in>set pre. \<forall>w. sheet_version ''Data'' t = Some w \<longrightarrow> w \<le> v)
           \<and> (\<forall>t\<in>set post. \<forall>w. sheet_version ''Data'' t = Some w \<longrightarrow> w < v))
   \<and> strip ''Data '' = ''Data'' \<and> sheet_version ''Data'' ''Data '' = Some 0"
proof -
  have r: "find_latest_sheet [''Data (3)'', ''Data'', ''Data(3)'', ''Data (2)''] ''Data'' = Some ''Data(3)''"
    by (simp add: find_latest_sheet_def sheet_version_def regex_match_def version_group_def
        at_dollar_def strip_def isspace_def is_ascii_digit_def int_of_digits_def digit_value_def)
  have s: "strip ''Data '' = ''Data''"
    by (simp add: strip_def isspace_def)
  show ?thesis
    using find_latest_sheet_last_highest
      [of "[''Data (3)'', ''Data'', ''Data(3)'', ''Data (2)'']" "''Data''" "''Data ''"] r s
    by simp
qed

text \<open>
  C6 (as stated) fails: two sheets carry version 3 and the second one is returned, not
  the first-seen one.
\<close>

theorem find_latest_sheet_tie_counterexample:
  "sheet_version ''Data'' ''Data (3)'' = Some 3
   \<and> sheet_version ''Data'' ''Data(3)'' = Some 3
   \<and> find_latest_sheet [''Data (3)'', ''Data(3)''] ''Data'' \<noteq> Some ''Data (3)''
   \<and> find_latest_sheet [''Data (3)'', ''Data(3)''] ''Data'' = Some ''Data(3)''"
  by (simp add: find_latest_sheet_def sheet_version_def regex_match_def version_group_def
      at_dollar_def strip_def isspace_def is_ascii_digit_def int_of_digits_def digit_value_def)

section \<open>Properties of the enrichment\<close>

lemma enrich_loop_rows:
  "distinct (map fst todo) \<Longrightarrow>
   rows (fst (enrich_loop lib db i p todo (df, w))) = map (enrich_upd lib db i p todo) (rows df)
   \<and> columns (fst (enrich_loop lib db i p todo (df, w))) = columns df"
proof (induction todo arbitrary: df w)
  case Nil
  then show ?case by (simp add: enrich_upd_def)
next
  case (Cons a todo)
  obtain idx row where a: "a = (idx, row)" by (cases a)
  from Cons.prems a have d: "distinct (map fst todo)" and notin: "idx \<notin> fst ` set todo" by auto
  have none: "map_of todo idx = None" using notin by (simp add: map_of_eq_None_iff)
  show ?case
  proof (cases "sql_lookup lib db i row")
    case None
    then have step: "enrich_loop lib db i p (a # todo) (df, w)
        = enrich_loop lib db i p todo (df, log_msg LError
             (if cell_at row i \<noteq> NA \<and> strip (py_str lib (cell_at row i)) \<noteq> []
              then ''SQL query failed for S/N'' else ''Skipping SQL query: S/N is empty or invalid'') w)"
      by (auto simp: a sql_lookup_def Let_def split: if_splits option.splits)
    have "map (enrich_upd lib db i p (a # todo)) (rows df) = map (enrich_upd lib db i p todo) (rows df)"
      using None none by (auto simp: enrich_upd_def a split: option.splits)
    then show ?thesis using Cons.IH[OF d] step by simp
  next
    case (Some pl)
    obtain pn lot where pl: "pl = (pn, lot)" by (cases pl)
    have step: "enrich_loop lib db i p (a # todo) (df, w)
        = enrich_loop lib db i p todo (set_loc idx (Suc p) lot (set_loc idx p pn df), w)"
      using Some by (auto simp: a pl sql_lookup_def Let_def split: if_splits option.splits)
    have "map (enrich_upd lib db i p (a # todo)) (rows df)
        = map (enrich_upd lib db i p todo) (rows (set_loc idx (Suc p) lot (set_loc idx p pn df)))"
      using Some none by (auto simp: enrich_upd_def a pl set_loc_def split: option.splits)
    then show ?thesis using Cons.IH[OF d] step by (simp add: set_loc_def)
  qed
qed

lemma map_snd_reset_index: "map snd (rows (reset_index df)) = map snd (rows df)"
  by (simp add: reset_index_def)

lemma map_fst_reset_index: "map fst (rows (reset_index df)) = [0..<length (rows df)]"
  by (simp add: reset_index_def)

lemma columns_reset_index: "columns (reset_index df) = columns df"
  by (simp add: reset_index_def)

lemma enrich_rows_after_loop:
  assumes wf: "well_formed df"
  defines "p \<equiv> length (columns df)"
  defines "todo \<equiv> map (\<lambda>(l, r). (l, r @ [NA, NA])) (rows df)"
  shows "map (enrich_upd lib db i p todo) todo =
         map (\<lambda>(l, r). (l, case sql_lookup lib db i (r @ [NA, NA]) of
                             None \<Rightarrow> r @ [NA, NA]
                           | Some (pn, lot) \<Rightarrow> r @ [pn, lot])) (rows df)"
proof -
  have dist: "distinct (map fst todo)"
    using wf by (simp add: well_formed_def todo_def case_prod_unfold comp_def)
  have "\<And>l r. (l, r) \<in> set (rows df) \<Longrightarrow>
          enrich_upd lib db i p todo (l, r @ [NA, NA]) =
          (l, case sql_lookup lib db i (r @ [NA, NA]) of
                None \<Rightarrow> r @ [NA, NA] | Some (pn, lot) \<Rightarrow> r @ [pn, lot])"
  proof -
    fix l r assume in_rows: "(l, r) \<in> set (rows df)"
    then have "(l, r @ [NA, NA]) \<in> set todo" by (force simp: todo_def)
    then have m: "map_of todo l = Some (r @ [NA, NA])"
      using dist by simp
    have len: "length r = p"
      using wf in_rows by (auto simp: well_formed_def list_all_iff p_def)
    show "enrich_upd lib db i p todo (l, r @ [NA, NA]) =
          (l, case sql_lookup lib db i (r @ [NA, NA]) of
                None \<Rightarrow> r @ [NA, NA] | Some (pn, lot) \<Rightarrow> r @ [pn, lot])"
      using m len by (auto simp: enrich_upd_def list_update_append split: option.splits)
  qed
  then show ?thesis
    by (auto simp: todo_def)
qed

lemma kept_rows:
  "\<forall>(l, r) \<in> set xs. length r = p \<Longrightarrow>
   map snd (filter (\<lambda>(l, r). cell_at r p \<noteq> NA)
     (map (\<lambda>(l, r). (l, case sql_lookup lib db i (r @ [NA, NA]) of
                             None \<Rightarrow> r @ [NA, NA]
                           | Some (pn, lot) \<Rightarrow> r @ [pn, lot])) xs))
   = List.map_filter (enriched_row lib db i) xs"
  by (induction xs)
     (auto simp: List.map_filter_simps enriched_row_def cell_at_def nth_append split: option.splits)

text \<open>
  What \<^const>\<open>enrich_with_sql_data\<close> does, with a database connection, on a non-empty
  table whose serial-number column index lies inside the table: it retains exactly the
  rows for which the lookup returns a pair whose part number is not null, in their order,
  re-indexed from 0, each with the two returned attributes appended as the columns
  \<^verbatim>\<open>part_number\<close> and \<^verbatim>\<open>lot_number_9\<close>. Only the part number is looked at.
\<close>

lemma enrich_keeps_rows_with_part_number:
  assumes "\<not> empty_df df" and "well_formed df" and "connSQL db = ConnOk"
    and "0 \<le> serial_idx" and "serial_idx < int (length (columns df)) + 2"
  shows "columns (fst (enrich_with_sql_data lib db df serial_idx w))
           = columns df @ [Named ''part_number'', Named ''lot_number_9'']
       \<and> map snd (rows (fst (enrich_with_sql_data lib db df serial_idx w)))
           = List.map_filter (enriched_row lib db (nat serial_idx)) (rows df)
       \<and> map fst (rows (fst (enrich_with_sql_data lib db df serial_idx w)))
           = [0..<length (List.map_filter (enriched_row lib db (nat serial_idx)) (rows df))]"
proof -
  define p where "p = length (columns df)"
  define todo where "todo = map (\<lambda>(l, r). (l, r @ [NA, NA])) (rows df)"
  define df_enriched where
    "df_enriched = add_column ''lot_number_9'' NA (add_column ''part_number'' NA df)"
  have rows_e: "rows df_enriched = todo"
    by (simp add: df_enriched_def add_column_def todo_def case_prod_unfold comp_def)
  have cols_e: "columns df_enriched = columns df @ [Named ''part_number'', Named ''lot_number_9'']"
    by (simp add: df_enriched_def add_column_def)
  have dist: "distinct (map fst todo)"
    using assms(2) by (simp add: well_formed_def todo_def case_prod_unfold comp_def)
  obtain df' w' where loop: "enrich_loop lib db (nat serial_idx) p todo (df_enriched, w) = (df', w')"
    by (cases "enrich_loop lib db (nat serial_idx) p todo (df_enriched, w)")
  from enrich_loop_rows[OF dist, of lib db "nat serial_idx" p df_enriched w] loop rows_e cols_e
  have r': "rows df' = map (enrich_upd lib db (nat serial_idx) p todo) todo"
    and c': "columns df' = columns df @ [Named ''part_number'', Named ''lot_number_9'']"
    by simp_all
  have r'': "rows df' = map (\<lambda>(l, r). (l, case sql_lookup lib db (nat serial_idx) (r @ [NA, NA]) of
                             None \<Rightarrow> r @ [NA, NA]
                           | Some (pn, lot) \<Rightarrow> r @ [pn, lot])) (rows df)"
    using enrich_rows_after_loop[OF assms(2), of lib db "nat serial_idx"] r'
    by (simp add: p_def todo_def)
  have res: "fst (enrich_with_sql_data lib db df serial_idx w) = reset_index (dropna_at p df')"
    using assms(1,3,4,5) loop
    by (simp add: enrich_with_sql_data_def Let_def p_def[symmetric] df_enriched_def[symmetric]
        rows_e cols_e)
  have len: "\<And>l r. (l, r) \<in> set (rows df) \<Longrightarrow> length r = p"
    using assms(2) by (auto simp: well_formed_def list_all_iff p_def)
  have kept: "map snd (rows (dropna_at p df'))
      = List.map_filter (enriched_row lib db (nat serial_idx)) (rows df)"
    unfolding dropna_at_def r'' using kept_rows[of "rows df" p lib db "nat serial_idx"] len
    by auto
  show ?thesis
    using res kept c'
    by (simp add: map_snd_reset_index map_fst_reset_index columns_reset_index dropna_at_def
        flip: length_map[of snd])
qed


lemma demo_py_str [simp]:
  "py_str demo_lib (Str s) = s"
  by (simp add: demo_lib_def)

lemma demo_db_simps [simp]:
  "connSQL demo_db = ConnOk"
  "selectSQL demo_db ''A'' = Some (Str ''PN123'', Str ''LOT9'')"
  "selectSQL demo_db ''B'' = Some (Str ''PN5'', NA)"
  "selectSQL demo_db ''C'' = Some (NA, Str ''LOT7'')"
  "selectSQL demo_db ''D'' = None"
  "selectSQL demo_db ''S1'' = Some (NA, NA)"
  by (simp_all add: demo_db_def)

lemma strip_simps [simp]:
  "strip ''A'' = ''A''" "strip ''B'' = ''B''" "strip ''C'' = ''C''" "strip ''D'' = ''D''"
  "strip ''S1'' = ''S1''"
  by (simp_all add: strip_def isspace_def)

text \<open>
  Scenario 4 of the specification and its neighbours: \<open>A\<close> has both attributes and is
  retained, \<open>B\<close> has a null lot number and is retained too, \<open>C\<close> (null part number),
  \<open>D\<close> (query raises), \<open>S1\<close> (both null) and the row without serial number are dropped.
\<close>

lemma enrich_keeps_rows_with_part_number_example:
  "map snd (rows (fst (enrich_with_sql_data demo_lib demo_db demo_serials 0 demo_world)))
     = [[Str ''A'', Str ''PN123'', Str ''LOT9''], [Str ''B'', Str ''PN5'', NA]]
   \<and> map fst (rows (fst (enrich_with_sql_data demo_lib demo_db demo_serials 0 demo_world)))
     = [0, 1]"
proof -
  have h1: "\<not> empty_df demo_serials" by (simp add: empty_df_def demo_serials_def)
  have h2: "well_formed demo_serials" by (simp add: well_formed_def demo_serials_def)
  have h3: "connSQL demo_db = ConnOk" by simp
  have h4: "(0::int) \<le> 0" by simp
  have h5: "(0::int) < int (length (columns demo_serials)) + 2" by simp
  have m: "List.map_filter (enriched_row demo_lib demo_db 0) (rows demo_serials)
      = [[Str ''A'', Str ''PN123'', Str ''LOT9''], [Str ''B'', Str ''PN5'', NA]]"
    by (simp add: demo_serials_def List.map_filter_simps enriched_row_def sql_lookup_def
        cell_at_def)
  show ?thesis
    using enrich_keeps_rows_with_part_number [OF h1 h2 h3 h4 h5, of demo_lib demo_world]
    by (simp add: m upt_rec)
qed


section \<open>Properties of the type conversion\<close>

lemma convert_loop_inv:
  "distinct is \<Longrightarrow> \<forall>i\<in>set is. i < length rs \<Longrightarrow>
   \<forall>i\<in>set is. \<not> row_raises lib nc fm (rs ! i) \<Longrightarrow>
   \<exists>rs' w'. convert_loop lib nc fm is (rs, drops, w)
        = (Inr (rs', drops \<union> {i \<in> set is. row_marked lib nc fm (rs ! i)}), w')
      \<and> length rs' = length rs
      \<and> (\<forall>j < length rs. rs' ! j = (if j \<in> set is then conv_row lib nc fm (rs ! j) else rs ! j))"
proof (induction "is" arbitrary: rs drops w)
  case Nil
  then show ?case by simp
next
  case (Cons i "is")
  from Cons.prems have i_lt: "i < length rs" and i_notin: "i \<notin> set is" and d: "distinct is"
    by auto
  from Cons.prems(3) obtain r m where cf: "convert_fields lib nc fm (snd (rs ! i)) = Inr (r, m)"
    by (cases "convert_fields lib nc fm (snd (rs ! i))") (auto simp: row_raises_def)
  define rs1 where "rs1 = rs[i := (fst (rs ! i), r)]"
  define drops1 where "drops1 = (if m then insert i drops else drops)"
  define w1 where "w1 = (if m then log_msg LError ''Type conversion error. Marking row for removal'' w
              else w)"
  have step: "convert_loop lib nc fm (i # is) (rs, drops, w) = convert_loop lib nc fm is (rs1, drops1, w1)"
    by (simp add: cf rs1_def drops1_def w1_def)
  have same: "\<And>j. j \<in> set is \<Longrightarrow> rs1 ! j = rs ! j"
    using i_notin unfolding rs1_def by (metis nth_list_update_neq)
  have p2: "\<forall>j\<in>set is. j < length rs1" using Cons.prems(2) by (simp add: rs1_def)
  have p3: "\<forall>j\<in>set is. \<not> row_raises lib nc fm (rs1 ! j)" using Cons.prems(3) same by simp
  from Cons.IH[OF d p2 p3, of drops1 w1] obtain rs' w' where
    res: "convert_loop lib nc fm is (rs1, drops1, w1)
        = (Inr (rs', drops1 \<union> {i \<in> set is. row_marked lib nc fm (rs1 ! i)}), w')"
    and len: "length rs' = length rs1"
    and nth: "\<forall>j < length rs1. rs' ! j = (if j \<in> set is then conv_row lib nc fm (rs1 ! j) else rs1 ! j)"
    by blast
  have mk: "row_marked lib nc fm (rs ! i) = m" by (simp add: row_marked_def cf)
  have cv: "conv_row lib nc fm (rs ! i) = (fst (rs ! i), r)" by (simp add: conv_row_def cf)
  have dr: "drops1 \<union> {j \<in> set is. row_marked lib nc fm (rs1 ! j)}
      = drops \<union> {j \<in> set (i # is). row_marked lib nc fm (rs ! j)}"
    using same mk by (auto simp: drops1_def)
  have nth': "\<forall>j < length rs. rs' ! j = (if j \<in> set (i # is) then conv_row lib nc fm (rs ! j) else rs ! j)"
  proof (intro allI impI)
    fix j assume j: "j < length rs"
    then have "rs' ! j = (if j \<in> set is then conv_row lib nc fm (rs1 ! j) else rs1 ! j)"
      using nth by (simp add: rs1_def)
    then show "rs' ! j = (if j \<in> set (i # is) then conv_row lib nc fm (rs ! j) else rs ! j)"
      using same i_notin i_lt cv by (auto simp: rs1_def)
  qed
  show ?case
    using step res dr len nth' by (simp add: rs1_def)
qed

lemma convert_loop_all:
  assumes "\<forall>row\<in>set rs. \<not> row_raises lib nc fm row"
  shows "\<exists>w'. convert_loop lib nc fm [0..<length rs] (rs, {}, w)
        = (Inr (map (conv_row lib nc fm) rs, {i. i < length rs \<and> row_marked lib nc fm (rs ! i)}), w')"
proof -
  have p3: "\<forall>i\<in>set [0..<length rs]. \<not> row_raises lib nc fm (rs ! i)" using assms by simp
  from convert_loop_inv[of "[0..<length rs]" rs lib nc fm "{}" w, OF _ _ p3]
  obtain rs' w' where
    res: "convert_loop lib nc fm [0..<length rs] (rs, {}, w)
        = (Inr (rs', {} \<union> {i \<in> set [0..<length rs]. row_marked lib nc fm (rs ! i)}), w')"
    and len: "length rs' = length rs"
    and nth: "\<forall>j < length rs. rs' ! j = (if j \<in> set [0..<length rs] then conv_row lib nc fm (rs ! j) else rs ! j)"
    by auto
  have "rs' = map (conv_row lib nc fm) rs"
    using len nth by (intro nth_equalityI) auto
  then show ?thesis using res by auto
qed

lemma fst_conv_row [simp]: "fst (conv_row lib nc fm row) = fst row"
  by (auto simp: conv_row_def split: sum.splits)

text \<open>
  When the index labels of the table are its positions \<open>0, 1, ...\<close> (as after
  \<^verbatim>\<open>reset_index\<close>) and no conversion raises an exception other than \<^verbatim>\<open>ValueError\<close>
  and \<^verbatim>\<open>TypeError\<close>, the rows marked during the loop are removed together after it: the
  result holds the converted rows that were not marked, in their order.
\<close>

lemma conversions_on_default_index:
  assumes ne: "\<not> empty_df df"
    and idx: "map fst (rows df) = [0..<length (rows df)]"
    and nr: "\<forall>row\<in>set (rows df). \<not> row_raises lib (length (columns df)) fm row"
  shows "\<exists>df' w'. apply_type_conversions lib df fm w = (Inr df', w')
     \<and> columns df' = columns df
     \<and> map snd (rows df') =
         map (\<lambda>row. snd (conv_row lib (length (columns df)) fm row))
           (filter (\<lambda>row. \<not> row_marked lib (length (columns df)) fm row) (rows df))"
proof -
  define nc where "nc = length (columns df)"
  define rs where "rs = rows df"
  define drops where "drops = {i. i < length rs \<and> row_marked lib nc fm (rs ! i)}"
  from convert_loop_all[of rs lib nc fm w] nr obtain w' where
    loop: "convert_loop lib nc fm [0..<length rs] (rs, {}, w) = (Inr (map (conv_row lib nc fm) rs, drops), w')"
    by (auto simp: rs_def nc_def drops_def)
  have labels: "map fst (map (conv_row lib nc fm) rs) = [0..<length rs]"
    using idx by (simp add: rs_def comp_def)
  have nth_lbl: "\<And>i. i < length rs \<Longrightarrow> fst (rs ! i) = i"
    using idx unfolding rs_def by (metis nth_map nth_upt add_0 length_map)
  have sub: "drops \<subseteq> set (map fst (map (conv_row lib nc fm) rs))"
    unfolding labels by (auto simp: drops_def)
  have flt: "filter (\<lambda>(l, r). l \<notin> drops) (map (conv_row lib nc fm) rs)
      = map (conv_row lib nc fm) (filter (\<lambda>row. \<not> row_marked lib nc fm row) rs)"
  proof -
    have "\<And>row. row \<in> set rs \<Longrightarrow> (fst row \<in> drops) = row_marked lib nc fm row"
    proof -
      fix row assume "row \<in> set rs"
      then obtain i where i: "i < length rs" "rs ! i = row" by (auto simp: in_set_conv_nth)
      then have "fst row = i" using nth_lbl by auto
      then show "(fst row \<in> drops) = row_marked lib nc fm row" using i by (auto simp: drops_def)
    qed
    then show ?thesis
      by (induction rs) (auto simp: case_prod_unfold)
  qed
  show ?thesis
  proof (cases "drops = {}")
    case True
    then have "filter (\<lambda>row. \<not> row_marked lib nc fm row) rs = rs"
      using True by (fastforce simp: drops_def filter_id_conv in_set_conv_nth)
    then show ?thesis
      using ne loop True
      by (simp add: apply_type_conversions_def rs_def[symmetric] nc_def[symmetric] comp_def)
  next
    case False
    have di: "drop_index drops (df\<lparr>rows := map (conv_row lib nc fm) rs\<rparr>)
        = Inr (df\<lparr>rows := map (conv_row lib nc fm)
                  (filter (\<lambda>row. \<not> row_marked lib nc fm row) rs)\<rparr>)"
      using sub flt unfolding drop_index_def by simp
    show ?thesis
      using ne loop False
      by (simp add: apply_type_conversions_def rs_def[symmetric] nc_def[symmetric] di
          reset_index_def comp_def Let_def)
  qed
qed

lemma demo_py_float [simp]:
  "py_float demo_lib (Str s) = py_int_str s"
  "py_float demo_lib (Num n) = Inr n"
  by (simp_all add: demo_lib_def)

lemma demo_digit_strings [simp]:
  "isdigit ''0''" "isdigit ''1''" "isdigit ''2''"
  "py_int_str ''0'' = Inr 0" "py_int_str ''1'' = Inr 1" "py_int_str ''2'' = Inr 2"
  "py_int_str ''5'' = Inr 5" "py_int_str ''10'' = Inr 10"
  "py_int_str ''N/A'' = Inl ValueError"
  by (simp_all add: isdigit_def isdigit_char_def py_int_str_def is_ascii_digit_def
      int_of_digits_def digit_value_def)

text \<open>
  C5, at a table whose index labels are not its positions. The loop marks the row at
  position 1 (its value \<open>N/A\<close> is not a float) and \<^verbatim>\<open>drop(index=[1])\<close> then removes the
  row \<^emph>\<open>labelled\<close> 1, which is the valid row: the row whose conversion failed is
  emitted. With the labels 2 and 3 the failing row is at position 0, no row carries that
  label, and \<^verbatim>\<open>drop\<close> raises \<^verbatim>\<open>KeyError\<close>.
\<close>

theorem type_conversion_drops_by_position:
  "row_marked demo_lib 1 [(''key_val'', ''0'', ''float'')] (2, [Str ''N/A''])
   \<and> \<not> row_marked demo_lib 1 [(''key_val'', ''0'', ''float'')] (1, [Str ''10''])
   \<and> fst (apply_type_conversions demo_lib
            \<lparr> columns = [Pos 0], rows = [(1, [Str ''10'']), (2, [Str ''N/A''])] \<rparr>
            [(''key_val'', ''0'', ''float'')] demo_world)
       = Inr \<lparr> columns = [Pos 0], rows = [(0, [Str ''N/A''])] \<rparr>
   \<and> fst (apply_type_conversions demo_lib
            \<lparr> columns = [Pos 0], rows = [(2, [Str ''N/A'']), (3, [Str ''10''])] \<rparr>
            [(''key_val'', ''0'', ''float'')] demo_world)
       = Inl KeyError"
  by (simp add: row_marked_def apply_type_conversions_def empty_df_def cell_at_def
      convert_value_def drop_index_def reset_index_def upt_rec)

section \<open>Properties of the date filter\<close>

lemma zip_map_upt: "zip rs (map f [0..<length rs]) = map (\<lambda>i. (rs ! i, f i)) [0..<length rs]"
  by (rule nth_equalityI) auto

lemma keep_rows_positions:
  "keep_rows thr rs (map f [0..<length rs])
     = map (\<lambda>i. rs ! i) (filter (\<lambda>i. \<exists>t. f i = Some t \<and> thr \<le> t) [0..<length rs])"
proof -
  have "(\<lambda>i. date_ok thr (f i)) = (\<lambda>i. \<exists>t. f i = Some t \<and> thr \<le> t)"
    by (auto simp: date_ok_def fun_eq_iff split: option.splits)
  then show ?thesis
    by (simp add: keep_rows_def zip_map_upt filter_map comp_def)
qed

lemma read_running_rec_result:
  "fst (read_running_rec lib p d w) = minus_days (clock w (ticks w)) d"
  by (simp add: read_running_rec_def datetime_now_def Let_def split: sum.splits)

lemma grating_date_filter_keeps:
  assumes "\<not> empty_df df"
    and "map_of fields_map ''key_Start_Date_Time'' = Some (spec, dtype)"
    and "isdigit spec" and "py_int_str spec = Inr idx"
    and "idx < int (length (columns df))"
    and "minus_days (clock w (ticks w)) days = Inr watermark"
    and "to_datetime_series lib (date_column df (nat idx)) = Inr (False, parsed)"
  shows "\<exists>df_filtered latest w'.
           apply_date_filter lib df fields_map running_rec_path days w
             = (Inr (df_filtered, latest), w')
         \<and> columns df_filtered = columns df
         \<and> rows df_filtered =
             map (\<lambda>i. rows df ! i)
               (filter (\<lambda>i. \<exists>t. parsed i = Some t \<and> watermark \<le> t) [0..<length (rows df)])"
proof -
  obtain r w1 where rr: "read_running_rec lib running_rec_path days w = (r, w1)"
    by (cases "read_running_rec lib running_rec_path days w")
  have r: "r = Inr watermark"
    using read_running_rec_result[of lib running_rec_path days w] rr assms(6) by simp
  have nonneg: "0 \<le> idx"
    using assms(4) by (auto simp: py_int_str_def int_of_digits_def split: if_splits)
  have spec_ne: "spec \<noteq> []" using assms(3) by (simp add: isdigit_def)
  show ?thesis
    using assms(1,2,3,4,5,7) rr r nonneg spec_ne
    by (simp add: apply_date_filter_def Let_def keep_rows_positions)
qed

lemma demo_series [simp]:
  "to_datetime_series demo_lib col
     = Inr (False, \<lambda>i. case cell_at col i of Time t \<Rightarrow> Some t | _ \<Rightarrow> None)"
  by (simp add: demo_lib_def)

lemma minus_days_demo [simp]: "minus_days (100 * one_day) 30 = Inr (70 * one_day)"
  by (simp add: minus_days_def one_day_def datetime_min_def datetime_max_def)


lemma mesa_date_filter_keeps:
  assumes "0 < running_date"
    and "column_position (Named ''key_start_date_time'') df = Some pos"
    and "minus_days (clock w (ticks w)) running_date = Inr cutoff"
    and "to_datetime_series lib (date_column df pos) = Inr (False, parsed)"
  shows "\<exists>df_kept w'.
           running_date_filter lib df running_date w = (Inr df_kept, w')
         \<and> columns df_kept = columns df
         \<and> rows df_kept =
             map (\<lambda>i. rows df ! i)
               (filter (\<lambda>i. \<exists>t. parsed i = Some t \<and> cutoff \<le> t) [0..<length (rows df)])"
  using assms
  by (simp add: running_date_filter_def Let_def datetime_now_def keep_rows_positions)

text \<open>
  C1 (as amended). The Date-Window Filter parses the timestamp column by one call of
  \<^verbatim>\<open>pd.to_datetime\<close> on the whole column. When that call returns a column \<open>parsed\<close>
  without time zone and the watermark (the clock reading minus the look-back days) can be
  computed, the filter returns normally and keeps exactly the rows, in their order and
  with their index labels, at the positions \<open>i\<close> where \<open>parsed i\<close> is a datetime at or
  after the watermark; a row whose entry of the parsed column is invalid is never kept.
  This holds of \<^const>\<open>apply_date_filter\<close> (CVD\_Grating.py) on a non-empty table with
  \<^verbatim>\<open>key_Start_Date_Time\<close> configured to a column of the table, and of
  \<^const>\<open>running_date_filter\<close> (050\_TAK\_MESA.py) when \<^verbatim>\<open>Running_date\<close> is positive and the
  column \<^verbatim>\<open>key_start_date_time\<close> exists.
\<close>

theorem date_filter_keeps_iff:
  assumes "\<not> empty_df df"
    and "map_of fields_map ''key_Start_Date_Time'' = Some (spec, dtype)"
    and "isdigit spec" and "py_int_str spec = Inr idx"
    and "idx < int (length (columns df))"
    and "minus_days (clock w (ticks w)) days = Inr watermark"
    and "to_datetime_series lib (date_column df (nat idx)) = Inr (False, parsed)"
    and "0 < running_date"
    and "column_position (Named ''key_start_date_time'') df_processed = Some pos"
    and "minus_days (clock w (ticks w)) running_date = Inr cutoff"
    and "to_datetime_series lib (date_column df_processed pos) = Inr (False, parsed')"
  shows "(\<exists>df_filtered latest w'.
           apply_date_filter lib df fields_map running_rec_path days w
             = (Inr (df_filtered, latest), w')
         \<and> columns df_filtered = columns df
         \<and> rows df_filtered =
             map (\<lambda>i. rows df ! i)
               (filter (\<lambda>i. \<exists>t. parsed i = Some t \<and> watermark \<le> t) [0..<length (rows df)]))
       \<and> (\<exists>df_kept w'.
           running_date_filter lib df_processed running_date w = (Inr df_kept, w')
         \<and> columns df_kept = columns df_processed
         \<and> rows df_kept =
             map (\<lambda>i. rows df_processed ! i)
               (filter (\<lambda>i. \<exists>t. parsed' i = Some t \<and> cutoff \<le> t)
                  [0..<length (rows df_processed)]))"
  using grating_date_filter_keeps [OF assms(1-7), of running_rec_path]
    mesa_date_filter_keeps [OF assms(8-11)]
  by blast

text \<open>
  Scenario 1 of the specification: of a recent row, an old row and a row with an
  unparseable date, only the recent one is kept, by either script.
\<close>

theorem date_filter_keeps_iff_witness:
  "(\<exists>df_filtered latest w'.
     apply_date_filter demo_lib demo_df demo_fields ''rec/run.txt'' 30 demo_world
       = (Inr (df_filtered, latest), w')
     \<and> columns df_filtered = [Pos 0, Pos 1, Pos 2]
     \<and> rows df_filtered = [(0, [Str ''A'', Time (99 * one_day), Str ''35''])])
   \<and> (\<exists>df_kept w'.
     running_date_filter demo_lib mesa_df 30 demo_world = (Inr df_kept, w')
     \<and> columns df_kept = [Named ''key_part_number'', Named ''key_start_date_time'']
     \<and> rows df_kept = [(1, [Str ''P2'', Time (99 * one_day)])])"
proof -
  have h1: "\<not> empty_df demo_df" by (simp add: empty_df_def demo_df_def)
  have h2: "map_of demo_fields ''key_Start_Date_Time'' = Some (''1'', ''datetime'')"
    by (simp add: demo_fields_def)
  have h3: "isdigit ''1''" by (simp add: isdigit_def isdigit_char_def is_ascii_digit_def)
  have h4: "py_int_str ''1'' = Inr 1"
    by (simp add: py_int_str_def is_ascii_digit_def int_of_digits_def digit_value_def)
  have h5: "(1::int) < int (length (columns demo_df))" by (simp add: demo_df_def)
  have h6: "minus_days (clock demo_world (ticks demo_world)) 30 = Inr (70 * one_day)"
    by (simp add: demo_world_def)
  have h7: "to_datetime_series demo_lib (date_column demo_df (nat 1))
      = Inr (False, \<lambda>i. case cell_at (date_column demo_df (nat 1)) i of Time t \<Rightarrow> Some t | _ \<Rightarrow> None)"
    by simp
  have h8: "(0::int) < 30" by simp
  have h9: "column_position (Named ''key_start_date_time'') mesa_df = Some 1"
    by (simp add: column_position_def mesa_df_def)
  have h11: "to_datetime_series demo_lib (date_column mesa_df 1)
      = Inr (False, \<lambda>i. case cell_at (date_column mesa_df 1) i of Time t \<Rightarrow> Some t | _ \<Rightarrow> None)"
    by simp
  show ?thesis
    using date_filter_keeps_iff [OF h1 h2 h3 h4 h5 h6 h7 h8 h9 h6 h11, of "''rec/run.txt''"]
    by (simp add: demo_df_def mesa_df_def date_column_def cell_at_def one_day_def upt_rec)
qed

lemma parse_examples [simp]:
  "parse_iso ''1970-04-10 00:00:00'' = Some (99 * one_day)"
  "parse_iso ''04/10/1970'' = None"
  "parse_us ''04/10/1970'' = Some (99 * one_day)"
  by (simp_all add: parse_iso_def parse_us_def digits_value_def is_ascii_digit_def
      int_of_digits_def digit_value_def civil_time_def days_from_civil_def one_day_def)

lemma infer_lib_simps [simp]:
  "to_datetime_coerce infer_lib (Str s) = parse_any s"
  "to_datetime_series infer_lib col
     = Inr (False, \<lambda>i. infer_entry (guess_format col) (cell_at col i))"
  "dirname infer_lib p = posix_dirname p"
  by (simp_all add: infer_lib_def demo_lib_def)

lemma mixed_column:
  "date_column mixed_df (Suc 0) = [Str ''1970-04-10 00:00:00'', Str ''04/10/1970'']"
  "date_column mixed_df 1 = [Str ''1970-04-10 00:00:00'', Str ''04/10/1970'']"
  by (simp_all add: date_column_def mixed_df_def cell_at_def)

lemma mixed_entries:
  "map (\<lambda>i. infer_entry (guess_format [Str ''1970-04-10 00:00:00'', Str ''04/10/1970''])
              (cell_at [Str ''1970-04-10 00:00:00'', Str ''04/10/1970''] i)) [0..<2]
   = [Some (99 * one_day), None]"
  by (simp add: guess_format_def infer_entry_def cell_at_def upt_rec)

text \<open>
  C1 (as stated) fails where the column call fixes the format from the first value. The
  cell \<^verbatim>\<open>04/10/1970\<close> of row \<open>B\<close> parses as a datetime on its own, and that datetime is
  after the watermark; in the column it follows a value in the format
  \<^verbatim>\<open>YYYY-MM-DD HH:MM:SS\<close>, its entry is invalid, and row \<open>B\<close> is removed.
\<close>

theorem date_filter_column_format_counterexample:
  "to_datetime_coerce infer_lib (Str ''04/10/1970'') = Some (99 * one_day)
   \<and> minus_days (clock demo_world (ticks demo_world)) 30 = Inr (70 * one_day)
   \<and> 70 * one_day \<le> 99 * one_day
   \<and> (1, [Str ''B'', Str ''04/10/1970'']) \<in> set (rows mixed_df)
   \<and> fst (apply_date_filter infer_lib mixed_df [(''key_Start_Date_Time'', ''1'', ''datetime'')]
            ''rec/run.txt'' 30 demo_world)
       = Inr (\<lparr> columns = [Pos 0, Pos 1],
                rows = [(0, [Str ''A'', Str ''1970-04-10 00:00:00''])] \<rparr>, Some (99 * one_day))"
proof -
  have a: "to_datetime_coerce infer_lib (Str ''04/10/1970'') = Some (99 * one_day)"
    by (simp add: parse_any_def)
  have b: "minus_days (clock demo_world (ticks demo_world)) 30 = Inr (70 * one_day)"
    by (simp add: demo_world_def)
  have c: "70 * one_day \<le> 99 * one_day" by (simp add: one_day_def)
  have d: "(1, [Str ''B'', Str ''04/10/1970'']) \<in> set (rows mixed_df)"
    by (simp add: mixed_df_def)
  obtain r w1 where rr: "read_running_rec infer_lib ''rec/run.txt'' 30 demo_world = (r, w1)"
    by (cases "read_running_rec infer_lib ''rec/run.txt'' 30 demo_world")
  have r: "r = Inr (70 * one_day)"
    using rr b by (auto simp: read_running_rec_def datetime_now_def Let_def split: sum.splits)
  have len: "length (rows mixed_df) = 2" "columns mixed_df = [Pos 0, Pos 1]"
    "\<not> empty_df mixed_df"
    by (simp_all add: mixed_df_def empty_df_def)
  have digit: "isdigit ''1''" "py_int_str ''1'' = Inr 1"
    by (simp_all add: isdigit_def isdigit_char_def py_int_str_def is_ascii_digit_def
        int_of_digits_def digit_value_def)
  have kept: "keep_rows (70 * one_day) (rows mixed_df) [Some (99 * one_day), None]
      = [(0, [Str ''A'', Str ''1970-04-10 00:00:00''])]"
    by (simp add: keep_rows_def mixed_df_def date_ok_def one_day_def)
  have e: "fst (apply_date_filter infer_lib mixed_df [(''key_Start_Date_Time'', ''1'', ''datetime'')]
            ''rec/run.txt'' 30 demo_world)
       = Inr (\<lparr> columns = [Pos 0, Pos 1],
                rows = [(0, [Str ''A'', Str ''1970-04-10 00:00:00''])] \<rparr>, Some (99 * one_day))"
    using rr r len digit
    by (simp add: apply_date_filter_def Let_def mixed_column mixed_entries kept
        List.map_filter_simps empty_df_def)
  show ?thesis using a b c d e by simp
qed

section \<open>Properties of the CSV writers\<close>










end
